theory Spec2Isabelle
  imports Complex_Main
begin

section \<open>Errors and tensors\<close>

text \<open>
  The layers of \<^verbatim>\<open>gcvit/layers/attention.py\<close> and \<^verbatim>\<open>gcvit/layers/embedding.py\<close> are
  Python classes over TensorFlow tensors. Every exception that Python or a TensorFlow
  operation raises is a value of \<open>error\<close>; a computation that may raise returns
  \<open>error + 'a\<close> with \<open>Inl\<close> for the exception, and \<open>bind_err\<close> is the sequencing of two
  statements: the second one is not run once the first one has raised.

  \<open>ReshapeError n m\<close> is the InvalidArgumentError of \<^verbatim>\<open>tf.reshape\<close>: "Input to reshape is
  a tensor with n values, but the requested shape has m".
\<close>

datatype error =
    ZeroDivisionError
  | TypeError
  | IndexError
  | ValueError
  | ReshapeError nat nat
  | InvalidArgumentError

definition bind_err :: "error + 'a \<Rightarrow> ('a \<Rightarrow> error + 'b) \<Rightarrow> error + 'b" where
  "bind_err m f = (case m of Inl e \<Rightarrow> Inl e | Inr x \<Rightarrow> f x)"

text \<open>
  A tensor is its shape and its elements in row-major order. Element types: \<open>int\<close> for
  the int32 index tensors, \<open>real\<close> for the float32 activations. The index entries of a
  window of edge \<open>W\<close> are bounded by \<open>(2W-1)\<^sup>2\<close> while the index tensor has \<open>W\<^sup>4\<close>
  entries, so no tensor that fits in memory comes near the int32 range and the entries
  are unbounded integers here; rounding of float32 is not modelled.
\<close>

datatype 'a tensor = Tensor (shape: "nat list") (elems: "'a list")

definition numel :: "nat list \<Rightarrow> nat" where
  "numel s = prod_list s"

definition wf_tensor :: "'a tensor \<Rightarrow> bool" where
  "wf_tensor t = (length (elems t) = numel (shape t))"

fun ravel :: "nat list \<Rightarrow> nat list \<Rightarrow> nat" where
  "ravel (d # ds) (i # is) = i * numel ds + ravel ds is"
| "ravel _ _ = 0"

fun unravel :: "nat list \<Rightarrow> nat \<Rightarrow> nat list" where
  "unravel [] k = []"
| "unravel (d # ds) k = (k div numel ds) # unravel ds (k mod numel ds)"

definition valid_index :: "nat list \<Rightarrow> nat list \<Rightarrow> bool" where
  "valid_index s idx = list_all2 (<) idx s"

definition tensor_at :: "'a tensor \<Rightarrow> nat list \<Rightarrow> 'a" where
  "tensor_at t idx = elems t ! ravel (shape t) idx"

definition tabulate :: "nat list \<Rightarrow> (nat list \<Rightarrow> 'a) \<Rightarrow> 'a tensor" where
  "tabulate s f = Tensor s (map (\<lambda>k. f (unravel s k)) [0..<numel s])"

section \<open>The TensorFlow and Keras operations the layers call\<close>

text \<open>
  Each operation follows its documented behaviour on shapes and elements, and fails
  where TensorFlow fails: \<^verbatim>\<open>tf.reshape\<close> on a different element count,
  \<^verbatim>\<open>tf.transpose\<close> on a \<open>perm\<close> that is not a permutation of the axes, a binary
  operation on shapes that do not broadcast, \<^verbatim>\<open>tf.gather\<close> on an index out of range,
  \<^verbatim>\<open>tf.matmul\<close> on different inner or batch dimensions (the operands of the layers
  always carry the same batch dimensions, so batch broadcasting is not needed).
\<close>

definition tf_range :: "int \<Rightarrow> int tensor" where
  "tf_range limit = Tensor [nat limit] (map int [0..<nat limit])"

definition tf_meshgrid_ij :: "'a tensor \<Rightarrow> 'a tensor \<Rightarrow> 'a tensor list" where
  "tf_meshgrid_ij a b =
     (let s = [length (elems a), length (elems b)]
      in [tabulate s (\<lambda>idx. elems a ! (idx ! 0)), tabulate s (\<lambda>idx. elems b ! (idx ! 1))])"

definition tf_stack :: "'a tensor list \<Rightarrow> error + 'a tensor" where
  "tf_stack ts =
     (case ts of
        [] \<Rightarrow> Inl ValueError
      | t # rest \<Rightarrow>
          if list_all (\<lambda>u. shape u = shape t) rest
          then Inr (Tensor (length ts # shape t) (concat (map elems ts)))
          else Inl InvalidArgumentError)"

definition tf_reshape :: "'a tensor \<Rightarrow> int list \<Rightarrow> error + 'a tensor" where
  "tf_reshape t dims =
     (let n = length (elems t);
          known = numel (map nat (filter (\<lambda>d. d \<noteq> - 1) dims))
      in if list_ex (\<lambda>d. d < - 1) dims \<or> 1 < count_list dims (- 1) then Inl InvalidArgumentError
         else if count_list dims (- 1) = 1 then
           (if known = 0 \<or> n mod known \<noteq> 0 then Inl (ReshapeError n known)
            else Inr (Tensor (map (\<lambda>d. if d = - 1 then n div known else nat d) dims) (elems t)))
         else if known = n then Inr (Tensor (map nat dims) (elems t))
         else Inl (ReshapeError n known))"

definition tf_expand_dims :: "'a tensor \<Rightarrow> nat \<Rightarrow> error + 'a tensor" where
  "tf_expand_dims t axis =
     (if axis \<le> length (shape t)
      then Inr (Tensor (take axis (shape t) @ [1] @ drop axis (shape t)) (elems t))
      else Inl InvalidArgumentError)"

fun broadcast_rev :: "nat list \<Rightarrow> nat list \<Rightarrow> nat list option" where
  "broadcast_rev [] ys = Some ys"
| "broadcast_rev xs [] = Some xs"
| "broadcast_rev (x # xs) (y # ys) =
     (if x = y \<or> y = 1 then map_option ((#) x) (broadcast_rev xs ys)
      else if x = 1 then map_option ((#) y) (broadcast_rev xs ys)
      else None)"

definition broadcast_shape :: "nat list \<Rightarrow> nat list \<Rightarrow> nat list option" where
  "broadcast_shape a b = map_option rev (broadcast_rev (rev a) (rev b))"

definition broadcast_index :: "nat list \<Rightarrow> nat list \<Rightarrow> nat list" where
  "broadcast_index s idx =
     map2 (\<lambda>d i. if d = 1 then 0 else i) s (drop (length idx - length s) idx)"

definition tf_binop :: "('a \<Rightarrow> 'a \<Rightarrow> 'a) \<Rightarrow> 'a tensor \<Rightarrow> 'a tensor \<Rightarrow> error + 'a tensor" where
  "tf_binop f a b =
     (case broadcast_shape (shape a) (shape b) of
        None \<Rightarrow> Inl InvalidArgumentError
      | Some s \<Rightarrow>
          Inr (tabulate s (\<lambda>idx. f (tensor_at a (broadcast_index (shape a) idx))
                                    (tensor_at b (broadcast_index (shape b) idx)))))"

fun index_of :: "nat \<Rightarrow> nat list \<Rightarrow> nat" where
  "index_of a [] = 0"
| "index_of a (p # ps) = (if p = a then 0 else Suc (index_of a ps))"

definition tf_transpose :: "'a tensor \<Rightarrow> nat list \<Rightarrow> error + 'a tensor" where
  "tf_transpose t perm =
     (if sort perm = [0..<length (shape t)]
      then Inr (tabulate (map (\<lambda>p. shape t ! p) perm)
                  (\<lambda>idx. tensor_at t (map (\<lambda>a. idx ! index_of a perm) [0..<length perm])))
      else Inl InvalidArgumentError)"

definition tf_index_axis2 :: "'a tensor \<Rightarrow> nat \<Rightarrow> error + 'a tensor" where
  "tf_index_axis2 t k =
     (if length (shape t) < 3 then Inl InvalidArgumentError
      else if shape t ! 2 \<le> k then Inl InvalidArgumentError
      else Inr (tabulate (take 2 (shape t) @ drop 3 (shape t))
                  (\<lambda>idx. tensor_at t (take 2 idx @ [k] @ drop 2 idx))))"

definition tf_map :: "('a \<Rightarrow> 'b) \<Rightarrow> 'a tensor \<Rightarrow> 'b tensor" where
  "tf_map f t = Tensor (shape t) (map f (elems t))"

definition tf_unstack :: "'a tensor \<Rightarrow> error + 'a tensor list" where
  "tf_unstack t =
     (case shape t of
        [] \<Rightarrow> Inl ValueError
      | d # rest \<Rightarrow>
          Inr (map (\<lambda>i. Tensor rest (take (numel rest) (drop (i * numel rest) (elems t)))) [0..<d]))"

definition tf_matmul :: "real tensor \<Rightarrow> real tensor \<Rightarrow> error + real tensor" where
  "tf_matmul a b =
     (let ra = length (shape a); rb = length (shape b)
      in if ra < 2 \<or> rb < 2 then Inl InvalidArgumentError
         else if take (ra - 2) (shape a) \<noteq> take (rb - 2) (shape b) then Inl InvalidArgumentError
         else if shape a ! (ra - 1) \<noteq> shape b ! (rb - 2) then Inl InvalidArgumentError
         else Inr (tabulate (take (ra - 2) (shape a) @ [shape a ! (ra - 2), shape b ! (rb - 1)])
                (\<lambda>idx. sum_list
                   (map (\<lambda>k. tensor_at a (take (ra - 2) idx @ [idx ! (ra - 2), k])
                              * tensor_at b (take (ra - 2) idx @ [k, idx ! (ra - 1)]))
                        [0..<shape a ! (ra - 1)]))))"

definition tf_gather :: "'a tensor \<Rightarrow> int tensor \<Rightarrow> error + 'a tensor" where
  "tf_gather params indices =
     (case shape params of
        [] \<Rightarrow> Inl InvalidArgumentError
      | d # rest \<Rightarrow>
          if list_all (\<lambda>i. 0 \<le> i \<and> i < int d) (elems indices)
          then Inr (tabulate (shape indices @ rest)
                 (\<lambda>idx. tensor_at params
                    (nat (tensor_at indices (take (length (shape indices)) idx))
                     # drop (length (shape indices)) idx)))
          else Inl InvalidArgumentError)"

definition tf_repeat :: "'a tensor \<Rightarrow> nat \<Rightarrow> error + 'a tensor" where
  "tf_repeat t repeats =
     (case shape t of
        [] \<Rightarrow> Inl InvalidArgumentError
      | d # rest \<Rightarrow>
          Inr (tabulate ((d * repeats) # rest)
                (\<lambda>idx. tensor_at t ((hd idx div repeats) # tl idx))))"

definition tf_floordiv :: "nat \<Rightarrow> nat \<Rightarrow> error + nat" where
  "tf_floordiv a b = (if b = 0 then Inl InvalidArgumentError else Inr (a div b))"

text \<open>
  The Keras layers that \<open>build\<close> creates. A \<open>Dense\<close> layer acts on the last axis; its
  kernel and bias are created by Keras on the first call for the channel count it then
  sees, so they are functions of the indices. \<open>Dropout\<close> is the identity outside
  training and for rate 0; in training the random draw is the argument \<open>keep\<close>.
\<close>

record dense =
  units :: nat
  use_bias :: bool

definition keras_dense ::
  "dense \<Rightarrow> (nat \<Rightarrow> nat \<Rightarrow> real) \<Rightarrow> (nat \<Rightarrow> real) \<Rightarrow> real tensor \<Rightarrow> error + real tensor" where
  "keras_dense layer weight bias x =
     (if length (shape x) < 2 then Inl ValueError
      else Inr (tabulate (butlast (shape x) @ [units layer])
             (\<lambda>idx. sum_list (map (\<lambda>c. tensor_at x (butlast idx @ [c]) * weight c (last idx))
                                 [0..<last (shape x)])
                    + (if use_bias layer then bias (last idx) else 0))))"

definition keras_softmax :: "real tensor \<Rightarrow> error + real tensor" where
  "keras_softmax x =
     (if shape x = [] then Inl ValueError
      else Inr (tabulate (shape x)
             (\<lambda>idx. exp (tensor_at x idx)
                    / sum_list (map (\<lambda>j. exp (tensor_at x (butlast idx @ [j])))
                                    [0..<last (shape x)]))))"

definition keras_dropout :: "real \<Rightarrow> bool \<Rightarrow> (nat \<Rightarrow> bool) \<Rightarrow> real tensor \<Rightarrow> real tensor" where
  "keras_dropout rate train keep x =
     (if train \<and> 0 < rate
      then Tensor (shape x)
             (map (\<lambda>k. if keep k then elems x ! k / (1 - rate) else 0) [0..<length (elems x)])
      else x)"

record zero_padding2d =
  padding :: nat

record conv2d =
  filters :: nat
  kernel_size :: nat
  strides :: nat

definition keras_zero_padding2d :: "zero_padding2d \<Rightarrow> real tensor \<Rightarrow> error + real tensor" where
  "keras_zero_padding2d layer x =
     (case shape x of
        [B, H, W, C] \<Rightarrow>
          Inr (tabulate [B, H + 2 * padding layer, W + 2 * padding layer, C]
                (\<lambda>idx. if padding layer \<le> idx ! 1 \<and> idx ! 1 < padding layer + H \<and>
                          padding layer \<le> idx ! 2 \<and> idx ! 2 < padding layer + W
                       then tensor_at x [idx ! 0, idx ! 1 - padding layer, idx ! 2 - padding layer, idx ! 3]
                       else 0))
      | _ \<Rightarrow> Inl ValueError)"

definition conv_output_length :: "nat \<Rightarrow> nat \<Rightarrow> nat \<Rightarrow> error + nat" where
  "conv_output_length input_length k s =
     (if s = 0 \<or> input_length + s < k then Inl InvalidArgumentError
      else Inr ((input_length + s - k) div s))"

definition keras_conv2d ::
  "conv2d \<Rightarrow> (nat \<Rightarrow> nat \<Rightarrow> nat \<Rightarrow> nat \<Rightarrow> real) \<Rightarrow> (nat \<Rightarrow> real) \<Rightarrow> real tensor \<Rightarrow> error + real tensor" where
  "keras_conv2d layer weight bias x =
     (case shape x of
        [B, H, W, C] \<Rightarrow>
          bind_err (conv_output_length H (kernel_size layer) (strides layer)) (\<lambda>Ho.
          bind_err (conv_output_length W (kernel_size layer) (strides layer)) (\<lambda>Wo.
            Inr (tabulate [B, Ho, Wo, filters layer]
              (\<lambda>idx. sum_list (map (\<lambda>di. sum_list (map (\<lambda>dj. sum_list (map (\<lambda>c.
                         tensor_at x [idx ! 0, idx ! 1 * strides layer + di,
                                      idx ! 2 * strides layer + dj, c]
                         * weight di dj c (idx ! 3))
                       [0..<C])) [0..<kernel_size layer])) [0..<kernel_size layer])
                     + bias (idx ! 3)))))
      | _ \<Rightarrow> Inl ValueError)"

section \<open>Python values\<close>

text \<open>
  \<^verbatim>\<open>__init__\<close> stores whatever it is given as \<^verbatim>\<open>window_size\<close>, wrapped in a pair, and
  \<open>build\<close> later indexes the pair and computes with its components; the argument is
  therefore a Python value, an integer or a tuple. The other arguments have the types
  of their defaults: \<^verbatim>\<open>num_heads\<close> a count, \<^verbatim>\<open>qkv_bias\<close> a flag, \<^verbatim>\<open>qk_scale\<close> a float or
  \<^verbatim>\<open>None\<close>, the dropout rates floats.
\<close>

datatype pyval = PInt int | PTuple "pyval list"

definition py_getitem :: "pyval \<Rightarrow> nat \<Rightarrow> error + pyval" where
  "py_getitem v i =
     (case v of
        PInt _ \<Rightarrow> Inl TypeError
      | PTuple xs \<Rightarrow> if i < length xs then Inr (xs ! i) else Inl IndexError)"

text \<open>
  \<open>py_int\<close> is the use of a value in integer arithmetic such as \<^verbatim>\<open>2 * w - 1\<close>, which
  raises TypeError on a tuple (\<^verbatim>\<open>2 * w\<close> repeats the tuple, \<^verbatim>\<open>- 1\<close> then fails).
\<close>

definition py_int :: "pyval \<Rightarrow> error + int" where
  "py_int v = (case v of PInt i \<Rightarrow> Inr i | PTuple _ \<Rightarrow> Inl TypeError)"

definition py_floordiv :: "nat \<Rightarrow> nat \<Rightarrow> error + nat" where
  "py_floordiv a b = (if b = 0 then Inl ZeroDivisionError else Inr (a div b))"

definition py_first :: "'a list \<Rightarrow> error + 'a" where
  "py_first xs = (case xs of [] \<Rightarrow> Inl IndexError | x # _ \<Rightarrow> Inr x)"

definition py_last :: "'a list \<Rightarrow> error + 'a" where
  "py_last xs = (if xs = [] then Inl IndexError else Inr (last xs))"

text \<open>
  \<^verbatim>\<open>a or b\<close> on an optional float: \<^verbatim>\<open>None\<close> and \<^verbatim>\<open>0.0\<close> are falsy, and \<open>b\<close> is evaluated
  (and may raise) only then. \<^verbatim>\<open>head_dim ** -0.5\<close> raises ZeroDivisionError on 0.
\<close>

definition py_or :: "real option \<Rightarrow> error + real \<Rightarrow> error + real" where
  "py_or a b = (case a of None \<Rightarrow> b | Some x \<Rightarrow> if x = 0 then b else Inr x)"

definition py_pow_minus_half :: "nat \<Rightarrow> error + real" where
  "py_pow_minus_half head_dim =
     (if head_dim = 0 then Inl ZeroDivisionError else Inr (real head_dim powr (- (1 / 2))))"

section \<open>WindowAttention\<close>

text \<open>
  \<open>base_config\<close> is what \<^verbatim>\<open>**kwargs\<close> hands to the Keras base class and what the base
  class's \<^verbatim>\<open>get_config\<close> returns. \<open>attention_layer\<close> holds the attributes that
  \<^verbatim>\<open>__init__\<close> sets (both attention classes set the same ones), \<open>attention_config\<close> is
  the dictionary of \<^verbatim>\<open>get_config\<close>, and \<open>from_config\<close> is the Keras default
  \<^verbatim>\<open>cls(**config)\<close>.
\<close>

record base_config =
  name :: string
  trainable :: bool
  dtype :: string

record attention_layer =
  kwargs :: base_config
  window_size :: pyval
  num_heads :: nat
  qkv_bias :: bool
  qk_scale :: "real option"
  attn_dropout :: real
  proj_dropout :: real

record attention_config =
  cfg_base :: base_config
  cfg_window_size :: pyval
  cfg_num_heads :: nat
  cfg_qkv_bias :: bool
  cfg_qk_scale :: "real option"
  cfg_attn_dropout :: real
  cfg_proj_dropout :: real

definition WindowAttention_init ::
  "pyval \<Rightarrow> nat \<Rightarrow> bool \<Rightarrow> real option \<Rightarrow> real \<Rightarrow> real \<Rightarrow> base_config \<Rightarrow> attention_layer" where
  "WindowAttention_init window_size' num_heads' qkv_bias' qk_scale' attn_dropout' proj_dropout' kwargs' =
     \<lparr>kwargs = kwargs',
      window_size = PTuple [window_size', window_size'],
      num_heads = num_heads',
      qkv_bias = qkv_bias',
      qk_scale = qk_scale',
      attn_dropout = attn_dropout',
      proj_dropout = proj_dropout'\<rparr>"

definition WindowAttention_get_config :: "attention_layer \<Rightarrow> attention_config" where
  "WindowAttention_get_config self =
     \<lparr>cfg_base = kwargs self,
      cfg_window_size = window_size self,
      cfg_num_heads = num_heads self,
      cfg_qkv_bias = qkv_bias self,
      cfg_qk_scale = qk_scale self,
      cfg_attn_dropout = attn_dropout self,
      cfg_proj_dropout = proj_dropout self\<rparr>"

definition WindowAttention_from_config :: "attention_config \<Rightarrow> attention_layer" where
  "WindowAttention_from_config config =
     WindowAttention_init (cfg_window_size config) (cfg_num_heads config) (cfg_qkv_bias config)
       (cfg_qk_scale config) (cfg_attn_dropout config) (cfg_proj_dropout config) (cfg_base config)"

text \<open>
  What \<open>build\<close> leaves on the layer: the scale, the configured sub-layers, the shape of
  the trainable bias table and the index tensor. The values of the trainable weights
  come from the initialiser and the optimiser; they are \<open>attention_weights\<close>, an
  argument of \<open>call\<close>. \<open>call_context\<close> is the Keras training flag with the two dropout
  draws.
\<close>

record attention_built =
  scale :: real
  qkv :: dense
  relative_position_bias_table :: "nat list"
  relative_position_index :: "int tensor"
  attn_drop :: real
  proj :: dense
  proj_drop :: real

record attention_weights =
  qkv_kernel :: "nat \<Rightarrow> nat \<Rightarrow> real"
  qkv_bias_vector :: "nat \<Rightarrow> real"
  table_values :: "nat \<Rightarrow> nat \<Rightarrow> real"
  proj_kernel :: "nat \<Rightarrow> nat \<Rightarrow> real"
  proj_bias_vector :: "nat \<Rightarrow> real"

record call_context =
  training :: bool
  attn_keep :: "nat \<Rightarrow> bool"
  proj_keep :: "nat \<Rightarrow> bool"

text \<open>Lines 30 to 39 of \<^verbatim>\<open>attention.py\<close>: the index tensor of \<^verbatim>\<open>WindowAttention.build\<close>.\<close>

definition WindowAttention_relative_position_index :: "int \<Rightarrow> int \<Rightarrow> error + int tensor" where
  "WindowAttention_relative_position_index w0 w1 =
     (let coords_h = tf_range w0;
          coords_w = tf_range w1
      in bind_err (tf_stack (tf_meshgrid_ij coords_h coords_w)) (\<lambda>coords.
         bind_err (tf_reshape coords [2, - 1]) (\<lambda>coords_flatten.
         bind_err (tf_expand_dims coords_flatten 2) (\<lambda>lhs.
         bind_err (tf_expand_dims coords_flatten 1) (\<lambda>rhs.
         bind_err (tf_binop (-) lhs rhs) (\<lambda>relative_coords.
         bind_err (tf_transpose relative_coords [1, 2, 0]) (\<lambda>relative_coords.
         bind_err (tf_index_axis2 relative_coords 0) (\<lambda>rc0.
         bind_err (tf_index_axis2 relative_coords 1) (\<lambda>rc1.
         let relative_coords_xx = tf_map (\<lambda>v. v + w0 - 1) rc0;
             relative_coords_yy = tf_map (\<lambda>v. v + w1 - 1) rc1;
             relative_coords_xx = tf_map (\<lambda>v. v * (2 * w1 - 1)) relative_coords_xx
         in tf_binop (+) relative_coords_xx relative_coords_yy)))))))))"

text \<open>
  The shape argument of \<^verbatim>\<open>add_weight\<close>, \<^verbatim>\<open>[(2 * ws[0] - 1) * (2 * ws[1] - 1), num_heads]\<close>,
  and a component \<^verbatim>\<open>self.window_size[i]\<close> used as an integer.
\<close>

definition window_extent :: "pyval \<Rightarrow> nat \<Rightarrow> error + int" where
  "window_extent ws i = bind_err (py_getitem ws i) py_int"

definition bias_table_shape :: "pyval \<Rightarrow> nat \<Rightarrow> error + nat list" where
  "bias_table_shape ws heads =
     bind_err (window_extent ws 0) (\<lambda>w0.
     bind_err (window_extent ws 1) (\<lambda>w1.
       if (2 * w0 - 1) * (2 * w1 - 1) < 0 then Inl ValueError
       else Inr [nat ((2 * w0 - 1) * (2 * w1 - 1)), heads]))"

definition WindowAttention_build :: "attention_layer \<Rightarrow> nat list \<Rightarrow> error + attention_built" where
  "WindowAttention_build self input_shape =
     bind_err (py_last input_shape) (\<lambda>dim.
     bind_err (py_floordiv dim (num_heads self)) (\<lambda>head_dim.
     bind_err (py_or (qk_scale self) (py_pow_minus_half head_dim)) (\<lambda>scale'.
     bind_err (bias_table_shape (window_size self) (num_heads self)) (\<lambda>table.
     bind_err (window_extent (window_size self) 0) (\<lambda>w0.
     bind_err (window_extent (window_size self) 1) (\<lambda>w1.
     bind_err (WindowAttention_relative_position_index w0 w1) (\<lambda>relative_position_index'.
       Inr \<lparr>scale = scale',
            qkv = \<lparr>units = dim * 3, use_bias = qkv_bias self\<rparr>,
            relative_position_bias_table = table,
            relative_position_index = relative_position_index',
            attn_drop = attn_dropout self,
            proj = \<lparr>units = dim, use_bias = True\<rparr>,
            proj_drop = proj_dropout self\<rparr>)))))))"

text \<open>
  Lines 57 to 61 and 141 to 145: the bias that is added to the attention logits, and
  lines 56 to 69 and 140 to 153, which the two \<open>call\<close> methods share word for word:
  the logits \<^verbatim>\<open>q @ tf.transpose(k, perm=[0, 1, 3, 2])\<close> of line 56 and 140, then everything
  from the bias to the output projection.
\<close>

definition relative_position_bias ::
  "attention_layer \<Rightarrow> attention_built \<Rightarrow> attention_weights \<Rightarrow> error + real tensor" where
  "relative_position_bias self built weights =
     (let table = tabulate (relative_position_bias_table built)
                    (\<lambda>idx. table_values weights (idx ! 0) (idx ! 1))
      in bind_err (tf_reshape (relative_position_index built) [- 1]) (\<lambda>flat_index.
         bind_err (tf_gather table flat_index) (\<lambda>bias.
         bind_err (window_extent (window_size self) 0) (\<lambda>w0.
         bind_err (window_extent (window_size self) 1) (\<lambda>w1.
         bind_err (tf_reshape bias [w0 * w1, w0 * w1, - 1]) (\<lambda>bias.
         bind_err (tf_transpose bias [2, 0, 1]) (\<lambda>bias.
           tf_expand_dims bias 0)))))))"

definition attention_logits :: "real tensor \<Rightarrow> real tensor \<Rightarrow> error + real tensor" where
  "attention_logits q k =
     bind_err (tf_transpose k [0, 1, 3, 2]) (\<lambda>kT. tf_matmul q kT)"

definition attention_from_logits ::
  "attention_layer \<Rightarrow> attention_built \<Rightarrow> attention_weights \<Rightarrow> call_context \<Rightarrow>
   nat \<Rightarrow> nat \<Rightarrow> nat \<Rightarrow> real tensor \<Rightarrow> real tensor \<Rightarrow> error + real tensor" where
  "attention_from_logits self built weights ctx B' N C attn v =
     bind_err (relative_position_bias self built weights) (\<lambda>bias.
     bind_err (tf_binop (+) attn bias) (\<lambda>attn.
     bind_err (keras_softmax attn) (\<lambda>attn.
     let attn = keras_dropout (attn_drop built) (training ctx) (attn_keep ctx) attn
     in bind_err (tf_matmul attn v) (\<lambda>x.
        bind_err (tf_transpose x [0, 2, 1, 3]) (\<lambda>x.
        bind_err (tf_reshape x [int B', int N, int C]) (\<lambda>x.
        bind_err (keras_dense (proj built) (proj_kernel weights) (proj_bias_vector weights) x) (\<lambda>x.
          Inr (keras_dropout (proj_drop built) (training ctx) (proj_keep ctx) x))))))))"

definition attention_output ::
  "attention_layer \<Rightarrow> attention_built \<Rightarrow> attention_weights \<Rightarrow> call_context \<Rightarrow>
   nat \<Rightarrow> nat \<Rightarrow> nat \<Rightarrow> real tensor \<Rightarrow> real tensor \<Rightarrow> real tensor \<Rightarrow> error + real tensor" where
  "attention_output self built weights ctx B' N C q k v =
     bind_err (attention_logits q k) (\<lambda>attn.
       attention_from_logits self built weights ctx B' N C attn v)"

definition WindowAttention_call ::
  "attention_layer \<Rightarrow> attention_built \<Rightarrow> attention_weights \<Rightarrow> call_context \<Rightarrow>
   real tensor \<Rightarrow> error + real tensor" where
  "WindowAttention_call self built weights ctx inputs =
     (case shape inputs of
        [B', N, C] \<Rightarrow>
          bind_err (keras_dense (qkv built) (qkv_kernel weights) (qkv_bias_vector weights) inputs) (\<lambda>qkv'.
          bind_err (tf_floordiv C (num_heads self)) (\<lambda>head_dim.
          bind_err (tf_reshape qkv' [int B', int N, 3, int (num_heads self), int head_dim]) (\<lambda>qkv'.
          bind_err (tf_transpose qkv' [2, 0, 3, 1, 4]) (\<lambda>qkv'.
          bind_err (tf_unstack qkv') (\<lambda>parts.
            case parts of
              [q, k, v] \<Rightarrow>
                attention_output self built weights ctx B' N C
                  (tf_map (\<lambda>x. x * scale built) q) k v
            | _ \<Rightarrow> Inl ValueError)))))
      | _ \<Rightarrow> Inl ValueError)"

text \<open>
  Keras builds a layer on its first call, with the shape of the input, and then calls
  it: \<open>WindowAttention_apply\<close> is \<^verbatim>\<open>layer(inputs)\<close> on a freshly constructed layer.
\<close>

definition WindowAttention_apply ::
  "attention_layer \<Rightarrow> attention_weights \<Rightarrow> call_context \<Rightarrow> real tensor \<Rightarrow> error + real tensor" where
  "WindowAttention_apply self weights ctx inputs =
     bind_err (WindowAttention_build self (shape inputs)) (\<lambda>built.
       WindowAttention_call self built weights ctx inputs)"

section \<open>WindowAttentionGlobal\<close>

definition WindowAttentionGlobal_init ::
  "pyval \<Rightarrow> nat \<Rightarrow> bool \<Rightarrow> real option \<Rightarrow> real \<Rightarrow> real \<Rightarrow> base_config \<Rightarrow> attention_layer" where
  "WindowAttentionGlobal_init window_size' num_heads' qkv_bias' qk_scale' attn_dropout' proj_dropout' kwargs' =
     \<lparr>kwargs = kwargs',
      window_size = PTuple [window_size', window_size'],
      num_heads = num_heads',
      qkv_bias = qkv_bias',
      qk_scale = qk_scale',
      attn_dropout = attn_dropout',
      proj_dropout = proj_dropout'\<rparr>"

definition WindowAttentionGlobal_get_config :: "attention_layer \<Rightarrow> attention_config" where
  "WindowAttentionGlobal_get_config self =
     \<lparr>cfg_base = kwargs self,
      cfg_window_size = window_size self,
      cfg_num_heads = num_heads self,
      cfg_qkv_bias = qkv_bias self,
      cfg_qk_scale = qk_scale self,
      cfg_attn_dropout = attn_dropout self,
      cfg_proj_dropout = proj_dropout self\<rparr>"

definition WindowAttentionGlobal_from_config :: "attention_config \<Rightarrow> attention_layer" where
  "WindowAttentionGlobal_from_config config =
     WindowAttentionGlobal_init (cfg_window_size config) (cfg_num_heads config)
       (cfg_qkv_bias config) (cfg_qk_scale config) (cfg_attn_dropout config)
       (cfg_proj_dropout config) (cfg_base config)"

text \<open>Lines 108 to 117: the index tensor of \<^verbatim>\<open>WindowAttentionGlobal.build\<close>.\<close>

definition WindowAttentionGlobal_relative_position_index :: "int \<Rightarrow> int \<Rightarrow> error + int tensor" where
  "WindowAttentionGlobal_relative_position_index w0 w1 =
     (let coords_h = tf_range w0;
          coords_w = tf_range w1
      in bind_err (tf_stack (tf_meshgrid_ij coords_h coords_w)) (\<lambda>coords.
         bind_err (tf_reshape coords [2, - 1]) (\<lambda>coords_flatten.
         bind_err (tf_expand_dims coords_flatten 2) (\<lambda>lhs.
         bind_err (tf_expand_dims coords_flatten 1) (\<lambda>rhs.
         bind_err (tf_binop (-) lhs rhs) (\<lambda>relative_coords.
         bind_err (tf_transpose relative_coords [1, 2, 0]) (\<lambda>relative_coords.
         bind_err (tf_index_axis2 relative_coords 0) (\<lambda>rc0.
         bind_err (tf_index_axis2 relative_coords 1) (\<lambda>rc1.
         let relative_coords_xx = tf_map (\<lambda>v. v + w0 - 1) rc0;
             relative_coords_yy = tf_map (\<lambda>v. v + w1 - 1) rc1;
             relative_coords_xx = tf_map (\<lambda>v. v * (2 * w1 - 1)) relative_coords_xx
         in tf_binop (+) relative_coords_xx relative_coords_yy)))))))))"

text \<open>
  \<open>build\<close> receives the shapes of both inputs and reads the channel count from the
  first, \<^verbatim>\<open>input_shape[0][-1]\<close>.
\<close>

definition WindowAttentionGlobal_build ::
  "attention_layer \<Rightarrow> nat list list \<Rightarrow> error + attention_built" where
  "WindowAttentionGlobal_build self input_shape =
     bind_err (py_first input_shape) (\<lambda>shape0.
     bind_err (py_last shape0) (\<lambda>dim.
     bind_err (py_floordiv dim (num_heads self)) (\<lambda>head_dim.
     bind_err (py_or (qk_scale self) (py_pow_minus_half head_dim)) (\<lambda>scale'.
     bind_err (bias_table_shape (window_size self) (num_heads self)) (\<lambda>table.
     bind_err (window_extent (window_size self) 0) (\<lambda>w0.
     bind_err (window_extent (window_size self) 1) (\<lambda>w1.
     bind_err (WindowAttentionGlobal_relative_position_index w0 w1) (\<lambda>relative_position_index'.
       Inr \<lparr>scale = scale',
            qkv = \<lparr>units = dim * 2, use_bias = qkv_bias self\<rparr>,
            relative_position_bias_table = table,
            relative_position_index = relative_position_index',
            attn_drop = attn_dropout self,
            proj = \<lparr>units = dim, use_bias = True\<rparr>,
            proj_drop = proj_dropout self\<rparr>))))))))"

text \<open>
  Lines 136 to 139: the query that enters the attention product, from the global query
  and the sizes \<open>B_\<close>, \<open>N\<close>, \<open>C\<close> of the local input and \<open>B\<close> of the global one.
\<close>

definition WindowAttentionGlobal_query ::
  "attention_layer \<Rightarrow> attention_built \<Rightarrow> nat \<Rightarrow> nat \<Rightarrow> nat \<Rightarrow> nat \<Rightarrow> real tensor \<Rightarrow> error + real tensor" where
  "WindowAttentionGlobal_query self built B' N C B q_global =
     bind_err (tf_floordiv B' B) (\<lambda>repeats.
     bind_err (tf_repeat q_global repeats) (\<lambda>q_global.
     bind_err (tf_floordiv C (num_heads self)) (\<lambda>head_dim.
     bind_err (tf_reshape q_global [int B', int N, int (num_heads self), int head_dim]) (\<lambda>q.
     bind_err (tf_transpose q [0, 2, 1, 3]) (\<lambda>q.
       Inr (tf_map (\<lambda>x. x * scale built) q))))))"

text \<open>Lines 132 to 135: the keys and values, from the local input alone.\<close>

definition WindowAttentionGlobal_kv ::
  "attention_layer \<Rightarrow> attention_built \<Rightarrow> attention_weights \<Rightarrow> real tensor \<Rightarrow>
   error + real tensor list" where
  "WindowAttentionGlobal_kv self built weights inputs =
     (case shape inputs of
        [B', N, C] \<Rightarrow>
          bind_err (keras_dense (qkv built) (qkv_kernel weights) (qkv_bias_vector weights) inputs) (\<lambda>kv.
          bind_err (tf_floordiv C (num_heads self)) (\<lambda>head_dim.
          bind_err (tf_reshape kv [int B', int N, 2, int (num_heads self), int head_dim]) (\<lambda>kv.
          bind_err (tf_transpose kv [2, 0, 3, 1, 4]) (\<lambda>kv.
            tf_unstack kv))))
      | _ \<Rightarrow> Inl ValueError)"

definition WindowAttentionGlobal_call ::
  "attention_layer \<Rightarrow> attention_built \<Rightarrow> attention_weights \<Rightarrow> call_context \<Rightarrow>
   real tensor \<Rightarrow> real tensor \<Rightarrow> error + real tensor" where
  "WindowAttentionGlobal_call self built weights ctx inputs q_global =
     (case shape inputs of
        [B', N, C] \<Rightarrow>
          bind_err (py_first (shape q_global)) (\<lambda>B.
          bind_err (WindowAttentionGlobal_kv self built weights inputs) (\<lambda>parts.
            case parts of
              [k, v] \<Rightarrow>
                bind_err (WindowAttentionGlobal_query self built B' N C B q_global) (\<lambda>q.
                  attention_output self built weights ctx B' N C q k v)
            | _ \<Rightarrow> Inl ValueError))
      | _ \<Rightarrow> Inl ValueError)"

definition WindowAttentionGlobal_apply ::
  "attention_layer \<Rightarrow> attention_weights \<Rightarrow> call_context \<Rightarrow> real tensor \<Rightarrow> real tensor \<Rightarrow>
   error + real tensor" where
  "WindowAttentionGlobal_apply self weights ctx inputs q_global =
     bind_err (WindowAttentionGlobal_build self [shape inputs, shape q_global]) (\<lambda>built.
       WindowAttentionGlobal_call self built weights ctx inputs q_global)"

section \<open>PatchEmbed\<close>

text \<open>
  \<^verbatim>\<open>ReduceSize\<close> is imported from \<^verbatim>\<open>gcvit/layers/feature.py\<close>; \<open>PatchEmbed\<close> only
  constructs it with \<^verbatim>\<open>keep_dim=True\<close> and calls it, so its \<open>call\<close> is the argument
  \<open>ReduceSize_call\<close>.
\<close>

record PatchEmbed =
  pe_kwargs :: base_config
  dim :: nat

record reduce_size =
  keep_dim :: bool

record patch_embed_built =
  pad :: zero_padding2d
  pe_proj :: conv2d
  conv_down :: reduce_size

record patch_embed_weights =
  proj_filter :: "nat \<Rightarrow> nat \<Rightarrow> nat \<Rightarrow> nat \<Rightarrow> real"
  proj_filter_bias :: "nat \<Rightarrow> real"

definition PatchEmbed_init :: "nat \<Rightarrow> base_config \<Rightarrow> PatchEmbed" where
  "PatchEmbed_init dim' kwargs' = \<lparr>pe_kwargs = kwargs', dim = dim'\<rparr>"

definition PatchEmbed_build :: "PatchEmbed \<Rightarrow> nat list \<Rightarrow> patch_embed_built" where
  "PatchEmbed_build self input_shape =
     \<lparr>pad = \<lparr>padding = 1\<rparr>,
      pe_proj = \<lparr>filters = dim self, kernel_size = 3, strides = 2\<rparr>,
      conv_down = \<lparr>keep_dim = True\<rparr>\<rparr>"

definition PatchEmbed_call ::
  "(reduce_size \<Rightarrow> real tensor \<Rightarrow> error + real tensor) \<Rightarrow> patch_embed_built \<Rightarrow>
   patch_embed_weights \<Rightarrow> real tensor \<Rightarrow> error + real tensor" where
  "PatchEmbed_call ReduceSize_call built weights inputs =
     bind_err (keras_zero_padding2d (pad built) inputs) (\<lambda>padded.
     bind_err (keras_conv2d (pe_proj built) (proj_filter weights) (proj_filter_bias weights) padded) (\<lambda>x.
       ReduceSize_call (conv_down built) x))"

text \<open>
  The stem as the specification words it, for comparison with \<open>PatchEmbed_call\<close>: the
  input zero-padded by one pixel on each spatial edge, then a 3 by 3 convolution with
  stride 2 that projects to \<open>dim\<close> channels. \<open>spec_padded_pixel x b i j c\<close> is pixel
  \<open>(i, j)\<close> of the padded image \<open>b\<close>; the output has \<open>(H + 1) div 2\<close> rows and
  \<open>(W + 1) div 2\<close> columns.
\<close>

definition spec_padded_pixel :: "real tensor \<Rightarrow> nat \<Rightarrow> nat \<Rightarrow> nat \<Rightarrow> nat \<Rightarrow> real" where
  "spec_padded_pixel x b i j c =
     (if 1 \<le> i \<and> i \<le> shape x ! 1 \<and> 1 \<le> j \<and> j \<le> shape x ! 2
      then tensor_at x [b, i - 1, j - 1, c] else 0)"

definition spec_stem :: "nat \<Rightarrow> patch_embed_weights \<Rightarrow> real tensor \<Rightarrow> real tensor" where
  "spec_stem d weights x =
     tabulate [shape x ! 0, (shape x ! 1 + 1) div 2, (shape x ! 2 + 1) div 2, d]
       (\<lambda>idx. sum_list (map (\<lambda>di. sum_list (map (\<lambda>dj. sum_list (map (\<lambda>c.
                  spec_padded_pixel x (idx ! 0) (2 * (idx ! 1) + di) (2 * (idx ! 2) + dj) c
                  * proj_filter weights di dj c (idx ! 3))
                [0..<shape x ! 3])) [0..<3])) [0..<3])
              + proj_filter_bias weights (idx ! 3))"


section \<open>Example values\<close>

text \<open>Weights that are all zero, a call outside training, and a base configuration.\<close>

definition zero_weights :: attention_weights where
  "zero_weights =
     \<lparr>qkv_kernel = (\<lambda>c u. 0), qkv_bias_vector = (\<lambda>u. 0), table_values = (\<lambda>r h. 0),
      proj_kernel = (\<lambda>c u. 0), proj_bias_vector = (\<lambda>u. 0)\<rparr>"

text \<open>Projection kernels of ones, without bias.\<close>

definition unit_weights :: attention_weights where
  "unit_weights =
     \<lparr>qkv_kernel = (\<lambda>c u. 1), qkv_bias_vector = (\<lambda>u. 0), table_values = (\<lambda>r h. 0),
      proj_kernel = (\<lambda>c u. 1), proj_bias_vector = (\<lambda>u. 0)\<rparr>"


definition inference :: call_context where
  "inference = \<lparr>training = False, attn_keep = (\<lambda>k. True), proj_keep = (\<lambda>k. True)\<rparr>"

definition example_kwargs :: base_config where
  "example_kwargs = \<lparr>name = ''attn'', trainable = True, dtype = ''float32''\<rparr>"


text \<open>Stem weights that are all one with no bias, and a stand-in for \<^verbatim>\<open>ReduceSize\<close> that
  returns its input.\<close>

definition example_stem_weights :: patch_embed_weights where
  "example_stem_weights = \<lparr>proj_filter = (\<lambda>di dj c o'. 1), proj_filter_bias = (\<lambda>o'. 0)\<rparr>"

definition example_reduce :: "reduce_size \<Rightarrow> real tensor \<Rightarrow> error + real tensor" where
  "example_reduce layer x = Inr x"


section \<open>Indexing and tabulation\<close>

lemma bind_err_Inr [simp]: "bind_err (Inr x) f = f x"
  by (simp add: bind_err_def)

lemma bind_err_Inl [simp]: "bind_err (Inl e) f = Inl e"
  by (simp add: bind_err_def)

lemma numel_Nil [simp]: "numel [] = 1"
  by (simp add: numel_def)

lemma numel_Cons [simp]: "numel (d # ds) = d * numel ds"
  by (simp add: numel_def)

lemma numel_append [simp]: "numel (xs @ ys) = numel xs * numel ys"
  by (simp add: numel_def)

lemma valid_index_Nil [simp]: "valid_index [] idx = (idx = [])"
  by (simp add: valid_index_def)

lemma valid_index_Cons:
  "valid_index (d # ds) idx = (\<exists>i is. idx = i # is \<and> i < d \<and> valid_index ds is)"
  by (simp add: valid_index_def list_all2_Cons2)

lemma valid_index_Cons_Cons [simp]:
  "valid_index (d # ds) (i # is) = (i < d \<and> valid_index ds is)"
  by (simp add: valid_index_def)

lemma valid_index_length: "valid_index s idx \<Longrightarrow> length idx = length s"
  by (simp add: valid_index_def list_all2_lengthD)

lemma ravel_less: "valid_index s idx \<Longrightarrow> ravel s idx < numel s"
proof (induction s arbitrary: idx)
  case Nil
  then show ?case by simp
next
  case (Cons d ds)
  then obtain i "is" where idx: "idx = i # is" and i: "i < d" and v: "valid_index ds is"
    by (auto simp: valid_index_Cons)
  have r: "ravel ds is < numel ds" using Cons.IH [OF v] .
  have "i * numel ds + ravel ds is < Suc i * numel ds" using r by simp
  also have "\<dots> \<le> d * numel ds" using i by (intro mult_le_mono1) simp
  finally show ?case by (simp add: idx)
qed

lemma unravel_valid: "k < numel s \<Longrightarrow> valid_index s (unravel s k)"
proof (induction s arbitrary: k)
  case Nil
  then show ?case by simp
next
  case (Cons d ds)
  have pos: "0 < numel ds" using Cons.prems by (cases "numel ds = 0") auto
  have "k div numel ds < d"
    using Cons.prems pos by (simp add: less_mult_imp_div_less)
  moreover have "valid_index ds (unravel ds (k mod numel ds))"
    using pos by (intro Cons.IH) simp
  ultimately show ?case by simp
qed

lemma ravel_unravel: "k < numel s \<Longrightarrow> ravel s (unravel s k) = k"
proof (induction s arbitrary: k)
  case Nil
  then show ?case by simp
next
  case (Cons d ds)
  have pos: "0 < numel ds" using Cons.prems by (cases "numel ds = 0") auto
  have "ravel ds (unravel ds (k mod numel ds)) = k mod numel ds"
    using pos by (intro Cons.IH) simp
  then show ?case by simp
qed

lemma unravel_ravel: "valid_index s idx \<Longrightarrow> unravel s (ravel s idx) = idx"
proof (induction s arbitrary: idx)
  case Nil
  then show ?case by simp
next
  case (Cons d ds)
  then obtain i "is" where idx: "idx = i # is" and i: "i < d" and v: "valid_index ds is"
    by (auto simp: valid_index_Cons)
  have r: "ravel ds is < numel ds" using ravel_less [OF v] .
  have "unravel ds (ravel ds is) = is" using Cons.IH [OF v] .
  then show ?case using r by (simp add: idx)
qed

lemma length_unravel [simp]: "length (unravel s k) = length s"
  by (induction s arbitrary: k) simp_all

lemma shape_tabulate [simp]: "shape (tabulate s f) = s"
  by (simp add: tabulate_def)

lemma length_elems_tabulate [simp]: "length (elems (tabulate s f)) = numel s"
  by (simp add: tabulate_def)

lemma wf_tabulate [simp]: "wf_tensor (tabulate s f)"
  by (simp add: tabulate_def wf_tensor_def)

lemma at_tabulate: "valid_index s idx \<Longrightarrow> tensor_at (tabulate s f) idx = f idx"
  using ravel_less [of s idx] by (simp add: tensor_at_def tabulate_def unravel_ravel)

lemma tabulate_cong:
  assumes "\<And>idx. valid_index s idx \<Longrightarrow> f idx = g idx"
  shows "tabulate s f = tabulate s g"
  unfolding tabulate_def using assms by (auto simp: unravel_valid)

lemma shape_tf_map [simp]: "shape (tf_map f t) = shape t"
  by (simp add: tf_map_def)

lemma wf_tf_map [simp]: "wf_tensor (tf_map f t) = wf_tensor t"
  by (simp add: tf_map_def wf_tensor_def)

lemma at_tf_map:
  "wf_tensor t \<Longrightarrow> valid_index (shape t) idx \<Longrightarrow> tensor_at (tf_map f t) idx = f (tensor_at t idx)"
  using ravel_less [of "shape t" idx] by (simp add: tf_map_def tensor_at_def wf_tensor_def)

lemma upt_3: "[0..<3] = [0, 1, 2]"
  by (simp add: upt_rec numeral_eq_Suc)

lemma upt_4: "[0..<4] = [0, 1, 2, 3]"
  by (simp add: upt_rec numeral_eq_Suc)

lemma upt_5: "[0..<5] = [0, 1, 2, 3, 4]"
  by (simp add: upt_rec numeral_eq_Suc)

section \<open>Reshape, transpose and matmul on the shapes the layers use\<close>

lemma reshape_dims_nat:
  "filter (\<lambda>d. d \<noteq> - 1) (map int s) = map int s"
  "count_list (map int s) (- 1) = 0"
  "\<not> list_ex (\<lambda>d. d < - 1) (map int s)"
  by (induction s) simp_all

lemma tf_reshape_nat:
  "tf_reshape t (map int s)
   = (if numel s = length (elems t) then Inr (Tensor s (elems t))
      else Inl (ReshapeError (length (elems t)) (numel s)))"
  by (simp add: tf_reshape_def reshape_dims_nat Let_def comp_def)

lemma transpose_0132:
  assumes "shape t = [a, b, c, d]"
  shows "tf_transpose t [0, 1, 3, 2]
         = Inr (tabulate [a, b, d, c] (\<lambda>idx. tensor_at t [idx ! 0, idx ! 1, idx ! 3, idx ! 2]))"
  by (simp add: tf_transpose_def assms upt_4 numeral_2_eq_2 numeral_3_eq_3)

lemma transpose_0213:
  assumes "shape t = [a, b, c, d]"
  shows "tf_transpose t [0, 2, 1, 3]
         = Inr (tabulate [a, c, b, d] (\<lambda>idx. tensor_at t [idx ! 0, idx ! 2, idx ! 1, idx ! 3]))"
  by (simp add: tf_transpose_def assms upt_4 numeral_2_eq_2 numeral_3_eq_3)

lemma transpose_201:
  assumes "shape t = [a, b, c]"
  shows "tf_transpose t [2, 0, 1]
         = Inr (tabulate [c, a, b] (\<lambda>idx. tensor_at t [idx ! 1, idx ! 2, idx ! 0]))"
  by (simp add: tf_transpose_def assms upt_3 numeral_2_eq_2)

lemma transpose_20314:
  assumes "shape t = [a, b, c, d, e]"
  shows "tf_transpose t [2, 0, 3, 1, 4]
         = Inr (tabulate [c, a, d, b, e]
                 (\<lambda>idx. tensor_at t [idx ! 1, idx ! 3, idx ! 0, idx ! 2, idx ! 4]))"
  by (simp add: tf_transpose_def assms upt_5 numeral_2_eq_2 numeral_3_eq_3 eval_nat_numeral)

lemma sum_list_map_cong:
  assumes "\<And>k. k < n \<Longrightarrow> f k = g k"
  shows "sum_list (map f [0..<n]) = sum_list (map g [0..<n])"
  using assms by (intro arg_cong [where f = sum_list] map_cong) auto

lemma matmul_rank4:
  assumes "shape a = [p, q, n, d]" "shape b = [p, q, d, m]"
  shows "\<exists>y. tf_matmul a b = Inr y \<and> shape y = [p, q, n, m] \<and> wf_tensor y"
  by (simp add: tf_matmul_def assms Let_def numeral_2_eq_2 numeral_3_eq_3)

section \<open>The relative position index\<close>

text \<open>
  The stacked coordinate grids of a window of edge \<open>n\<close>: position \<open>k\<close> of the first
  holds the row \<open>k div n\<close>, position \<open>k\<close> of the second the column \<open>k mod n\<close>.
\<close>

lemma index_grid:
  fixes n :: nat
  shows "tf_stack (tf_meshgrid_ij (tf_range (int n)) (tf_range (int n)))
         = Inr (Tensor [2, n, n]
                 (map (\<lambda>k. int (k div n)) [0..<n * n] @ map (\<lambda>k. int (k mod n)) [0..<n * n]))"
proof -
  have a: "map (\<lambda>k. map int [0..<n] ! (k div n)) [0..<n * n]
           = map (\<lambda>k. int (k div n)) [0..<n * n]"
    by (rule map_cong) (auto simp: less_mult_imp_div_less)
  have b: "map (\<lambda>k. map int [0..<n] ! (k mod n)) [0..<n * n]
           = map (\<lambda>k. int (k mod n)) [0..<n * n]"
  proof (rule map_cong)
    fix k assume "k \<in> set [0..<n * n]"
    then have "0 < n" by (cases n) auto
    then show "map int [0..<n] ! (k mod n) = int (k mod n)" by simp
  qed simp
  show ?thesis
    by (simp add: tf_stack_def tf_meshgrid_ij_def tf_range_def tabulate_def Let_def a b)
qed

text \<open>
  The index tensor, entry by entry. It is built for every integer \<open>W\<close>; for \<open>W \<le> 0\<close>
  it is the empty tensor of shape \<open>[0, 0]\<close>.
\<close>

lemma index_spec:
  fixes W :: int
  defines "n \<equiv> nat W"
  shows "\<exists>t. WindowAttention_relative_position_index W W = Inr t \<and>
             shape t = [n * n, n * n] \<and> wf_tensor t \<and>
             (\<forall>i<n * n. \<forall>j<n * n.
                tensor_at t [i, j]
                = (int (i div n) - int (j div n) + W - 1) * (2 * W - 1)
                  + (int (i mod n) - int (j mod n) + W - 1))"
proof -
  define m where "m = n * n"
  define E where "E = map (\<lambda>k. int (k div n)) [0..<m] @ map (\<lambda>k. int (k mod n)) [0..<m]"
  have lenE: "length E = 2 * m" by (simp add: E_def)
  have E0: "E ! i = int (i div n)" if "i < m" for i
    using that by (simp add: E_def nth_append)
  have E1: "E ! (m + i) = int (i mod n)" if "i < m" for i
    using that by (simp add: E_def nth_append)
  have rng: "tf_range W = tf_range (int n)" by (simp add: tf_range_def n_def)
  have st: "tf_stack (tf_meshgrid_ij (tf_range W) (tf_range W)) = Inr (Tensor [2, n, n] E)"
    unfolding rng E_def m_def by (rule index_grid)
  define cf where "cf = Tensor [2, m] E"
  have rs: "tf_reshape (Tensor [2, n, n] E) [2, - 1] = Inr cf"
    by (simp add: tf_reshape_def cf_def lenE m_def)
  define lhs where "lhs = Tensor [2, m, 1] E"
  define rhs where "rhs = Tensor [2, 1, m] E"
  have e2: "tf_expand_dims cf 2 = Inr lhs" and e1: "tf_expand_dims cf 1 = Inr rhs"
    by (simp_all add: tf_expand_dims_def cf_def lhs_def rhs_def)
  define rc where "rc = tabulate [2, m, m]
      (\<lambda>idx. tensor_at lhs (broadcast_index [2, m, 1] idx) - tensor_at rhs (broadcast_index [2, 1, m] idx))"
  have bs: "broadcast_shape [2, m, Suc 0] [2, Suc 0, m] = Some [2, m, m]"
    by (simp add: broadcast_shape_def)
  have sub: "tf_binop (-) lhs rhs = Inr rc"
    by (simp add: tf_binop_def lhs_def rhs_def bs rc_def)
  have rc_at: "tensor_at rc [c, i, j] = E ! (c * m + i) - E ! (c * m + j)"
    if "c < 2" "i < m" "j < m" for c i j
  proof -
    have "tensor_at rc [c, i, j]
          = tensor_at lhs (broadcast_index [2, m, 1] [c, i, j])
            - tensor_at rhs (broadcast_index [2, 1, m] [c, i, j])"
      using that by (simp add: rc_def at_tabulate)
    also have "\<dots> = E ! (c * m + i) - E ! (c * m + j)"
      using that by (auto simp: broadcast_index_def tensor_at_def lhs_def rhs_def)
    finally show ?thesis .
  qed
  define rt where "rt = tabulate [m, m, 2] (\<lambda>idx. tensor_at rc [idx ! 2, idx ! 0, idx ! 1])"
  have sh_rc: "shape rc = [2, m, m]" by (simp add: rc_def)
  have tr: "tf_transpose rc [1, 2, 0] = Inr rt"
    by (simp add: tf_transpose_def sh_rc rt_def upt_3 numeral_2_eq_2)
  define rc0 where "rc0 = tabulate [m, m] (\<lambda>idx. tensor_at rt (take 2 idx @ [0] @ drop 2 idx))"
  define rc1 where "rc1 = tabulate [m, m] (\<lambda>idx. tensor_at rt (take 2 idx @ [1] @ drop 2 idx))"
  have sh_rt: "shape rt = [m, m, 2]" by (simp add: rt_def)
  have i0: "tf_index_axis2 rt 0 = Inr rc0" and i1: "tf_index_axis2 rt 1 = Inr rc1"
    by (simp_all add: tf_index_axis2_def sh_rt rc0_def rc1_def)
  have rc0_at: "tensor_at rc0 [i, j] = int (i div n) - int (j div n)" if "i < m" "j < m" for i j
    using that rc_at [of 0 i j] by (simp add: rc0_def rt_def at_tabulate E0)
  have rc1_at: "tensor_at rc1 [i, j] = int (i mod n) - int (j mod n)" if "i < m" "j < m" for i j
    using that rc_at [of 1 i j] by (simp add: rc1_def rt_def at_tabulate E1)
  define xx where "xx = tf_map (\<lambda>v. v * (2 * W - 1)) (tf_map (\<lambda>v. v + W - 1) rc0)"
  define yy where "yy = tf_map (\<lambda>v. v + W - 1) rc1"
  have shx: "shape xx = [m, m]" and shy: "shape yy = [m, m]"
    by (simp_all add: xx_def yy_def rc0_def rc1_def)
  have xx_at: "tensor_at xx [i, j] = (int (i div n) - int (j div n) + W - 1) * (2 * W - 1)"
    if "i < m" "j < m" for i j
  proof -
    have v: "valid_index (shape rc0) [i, j]" "wf_tensor rc0"
      using that by (simp_all add: rc0_def)
    show ?thesis
      using v that by (simp add: xx_def at_tf_map rc0_at)
  qed
  have yy_at: "tensor_at yy [i, j] = int (i mod n) - int (j mod n) + W - 1"
    if "i < m" "j < m" for i j
  proof -
    have v: "valid_index (shape rc1) [i, j]" "wf_tensor rc1"
      using that by (simp_all add: rc1_def)
    show ?thesis
      using v that by (simp add: yy_def at_tf_map rc1_at)
  qed
  define t where "t = tabulate [m, m]
      (\<lambda>idx. tensor_at xx (broadcast_index [m, m] idx) + tensor_at yy (broadcast_index [m, m] idx))"
  have bs2: "broadcast_shape [m, m] [m, m] = Some [m, m]"
    by (simp add: broadcast_shape_def)
  have add: "tf_binop (+) xx yy = Inr t"
    by (simp add: tf_binop_def shx shy bs2 t_def)
  have t_at: "tensor_at t [i, j] = tensor_at xx [i, j] + tensor_at yy [i, j]"
    if "i < m" "j < m" for i j
    using that by (auto simp: t_def at_tabulate broadcast_index_def)
  have "WindowAttention_relative_position_index W W = Inr t"
    by (simp only: WindowAttention_relative_position_index_def Let_def st rs e2 e1 sub tr i0 i1
        bind_err_Inr add [unfolded xx_def yy_def])
  moreover have "shape t = [n * n, n * n]" by (simp add: t_def m_def)
  moreover have "wf_tensor t" by (simp add: t_def)
  ultimately show ?thesis
    using t_at xx_at yy_at by (auto simp: m_def)
qed

lemma index_range:
  fixes W :: int and n :: nat
  assumes n: "n = nat W" and i: "i < n * n" and j: "j < n * n"
  shows "0 \<le> (int (i div n) - int (j div n) + W - 1) * (2 * W - 1)
              + (int (i mod n) - int (j mod n) + W - 1)"
    and "(int (i div n) - int (j div n) + W - 1) * (2 * W - 1)
              + (int (i mod n) - int (j mod n) + W - 1) \<le> (2 * W - 1)\<^sup>2 - 1"
proof -
  have npos: "0 < n" using i by (cases n) auto
  then have W: "W = int n" using n by simp
  have di: "i div n < n" and dj: "j div n < n"
    using i j by (simp_all add: less_mult_imp_div_less)
  have mi: "i mod n < n" and mj: "j mod n < n" using npos by simp_all
  define x where "x = int (i div n) - int (j div n) + W - 1"
  define y where "y = int (i mod n) - int (j mod n) + W - 1"
  have x: "0 \<le> x" "x \<le> 2 * W - 2" using di dj unfolding x_def W by linarith+
  have y: "0 \<le> y" "y \<le> 2 * W - 2" using mi mj unfolding y_def W by linarith+
  have w: "0 \<le> 2 * W - 1" using npos W by simp
  have "0 \<le> x * (2 * W - 1)" using x(1) w by simp
  then show "0 \<le> (int (i div n) - int (j div n) + W - 1) * (2 * W - 1)
              + (int (i mod n) - int (j mod n) + W - 1)"
    using y(1) unfolding x_def y_def by linarith
  have "x * (2 * W - 1) \<le> (2 * W - 2) * (2 * W - 1)"
    using x(2) w by (rule mult_right_mono)
  then have "x * (2 * W - 1) + y \<le> (2 * W - 2) * (2 * W - 1) + (2 * W - 2)"
    using y(2) by linarith
  also have "\<dots> = (2 * W - 1)\<^sup>2 - 1" by (simp add: power2_eq_square algebra_simps)
  finally show "(int (i div n) - int (j div n) + W - 1) * (2 * W - 1)
              + (int (i mod n) - int (j mod n) + W - 1) \<le> (2 * W - 1)\<^sup>2 - 1"
    unfolding x_def y_def .
qed

text \<open>
  \<open>build\<close> on a layer constructed with an integer window size: only the channel count
  and the head count can make it raise.
\<close>

lemma WindowAttention_build_init:
  assumes "WindowAttention_relative_position_index W W = Inr t"
  shows "WindowAttention_build (WindowAttention_init (PInt W) nh qb qs ad pd kw) sh
         = bind_err (py_last sh) (\<lambda>dim.
           bind_err (py_floordiv dim nh) (\<lambda>head_dim.
           bind_err (py_or qs (py_pow_minus_half head_dim)) (\<lambda>scale'.
             Inr \<lparr>scale = scale',
                  qkv = \<lparr>units = dim * 3, use_bias = qb\<rparr>,
                  relative_position_bias_table = [nat ((2 * W - 1) * (2 * W - 1)), nh],
                  relative_position_index = t,
                  attn_drop = ad,
                  proj = \<lparr>units = dim, use_bias = True\<rparr>,
                  proj_drop = pd\<rparr>)))"
  by (simp add: WindowAttention_build_def WindowAttention_init_def bias_table_shape_def
      window_extent_def py_getitem_def py_int_def assms not_less)

section \<open>Claims about the relative position index\<close>

text \<open>
  Claim C1. For every window size \<open>W \<ge> 1\<close>, \<open>W = 1\<close> included, the index tensor that
  \<^verbatim>\<open>WindowAttention.build\<close> constructs exists (nothing raises), has shape
  \<open>[W\<^sup>2, W\<^sup>2]\<close>, and its entry for the flattened positions \<open>i\<close> and \<open>j\<close>, with rows
  \<open>i div W\<close>, \<open>j div W\<close> and columns \<open>i mod W\<close>, \<open>j mod W\<close>, is
  \<open>(row\<^sub>i - row\<^sub>j + W - 1) * (2W - 1) + (col\<^sub>i - col\<^sub>j + W - 1)\<close>, which lies between \<open>0\<close> and
  \<open>(2W-1)\<^sup>2 - 1\<close>. \<open>build\<close> on a layer with at least one head and at least one channel
  per head returns with this tensor as its \<open>relative_position_index\<close>.
\<close>

theorem relative_position_index_entries:
  assumes "1 \<le> W"
  shows "\<exists>t. WindowAttention_relative_position_index W W = Inr t \<and>
             shape t = [nat W * nat W, nat W * nat W] \<and>
             (\<forall>i<nat W * nat W. \<forall>j<nat W * nat W.
                tensor_at t [i, j]
                  = (int (i div nat W) - int (j div nat W) + W - 1) * (2 * W - 1)
                    + (int (i mod nat W) - int (j mod nat W) + W - 1) \<and>
                0 \<le> tensor_at t [i, j] \<and> tensor_at t [i, j] \<le> (2 * W - 1)\<^sup>2 - 1) \<and>
             (\<forall>nh qb qs ad pd kw B N C. 0 < nh \<and> nh \<le> C \<longrightarrow>
                (\<exists>b. WindowAttention_build (WindowAttention_init (PInt W) nh qb qs ad pd kw) [B, N, C]
                        = Inr b \<and> relative_position_index b = t))"
proof -
  obtain t where t: "WindowAttention_relative_position_index W W = Inr t"
    and sh: "shape t = [nat W * nat W, nat W * nat W]"
    and at: "\<And>i j. i < nat W * nat W \<Longrightarrow> j < nat W * nat W \<Longrightarrow>
                tensor_at t [i, j]
                  = (int (i div nat W) - int (j div nat W) + W - 1) * (2 * W - 1)
                    + (int (i mod nat W) - int (j mod nat W) + W - 1)"
    using index_spec [of W] by blast
  have rng: "0 \<le> tensor_at t [i, j] \<and> tensor_at t [i, j] \<le> (2 * W - 1)\<^sup>2 - 1"
    if "i < nat W * nat W" "j < nat W * nat W" for i j
    using index_range [OF refl that] at [OF that] by simp
  have bld: "\<exists>b. WindowAttention_build (WindowAttention_init (PInt W) nh qb qs ad pd kw) [B, N, C]
                   = Inr b \<and> relative_position_index b = t"
    if "0 < nh \<and> nh \<le> C" for nh qb qs ad pd kw B N C
  proof -
    have "C div nh \<noteq> 0" using that by (simp add: div_eq_0_iff)
    then show ?thesis
      using that
      by (simp add: WindowAttention_build_init [OF t] py_last_def py_floordiv_def py_or_def
          py_pow_minus_half_def split: option.split)
  qed
  show ?thesis using t sh at rng bld by blast
qed

theorem relative_position_index_entries_witness:
  "(1::int) \<le> 2 \<and>
   (\<exists>t. WindowAttention_relative_position_index 2 2 = Inr t \<and> shape t = [4, 4] \<and>
        tensor_at t [1, 2] = 2 \<and>
        (\<exists>b. WindowAttention_build
               (WindowAttention_init (PInt 2) 4 True None 0 0
                 \<lparr>name = ''attn'', trainable = True, dtype = ''float32''\<rparr>) [2, 4, 32] = Inr b \<and>
             relative_position_index b = t)) \<and>
   (1::int) \<le> 1 \<and>
   (\<exists>t. WindowAttention_relative_position_index 1 1 = Inr t \<and> shape t = [1, 1] \<and>
        tensor_at t [0, 0] = 0)"
proof -
  have h2: "(1::int) \<le> 2" and h1: "(1::int) \<le> 1" by simp_all
  from relative_position_index_entries [OF h1] obtain u where
    u: "WindowAttention_relative_position_index 1 1 = Inr u"
    and shu: "shape u = [nat 1 * nat 1, nat 1 * nat 1]"
    and atu: "\<forall>i<nat 1 * nat 1. \<forall>j<nat 1 * nat 1.
          tensor_at u [i, j]
            = (int (i div nat 1) - int (j div nat 1) + 1 - 1) * (2 * 1 - 1)
              + (int (i mod nat 1) - int (j mod nat 1) + 1 - 1) \<and>
          0 \<le> tensor_at u [i, j] \<and> tensor_at u [i, j] \<le> (2 * 1 - 1)\<^sup>2 - 1"
    by (elim exE conjE)
  have u0: "tensor_at u [0, 0] = 0" using atu [rule_format, of 0 0] by simp
  have shu': "shape u = [1, 1]" using shu by simp
  have one: "\<exists>t. WindowAttention_relative_position_index 1 1 = Inr t \<and> shape t = [1, 1] \<and>
        tensor_at t [0, 0] = 0"
    using u shu' u0 by (intro exI [of _ u] conjI)
  from relative_position_index_entries [OF h2] obtain t where
    t: "WindowAttention_relative_position_index 2 2 = Inr t"
    and sh: "shape t = [nat 2 * nat 2, nat 2 * nat 2]"
    and at: "\<forall>i<nat 2 * nat 2. \<forall>j<nat 2 * nat 2.
          tensor_at t [i, j]
            = (int (i div nat 2) - int (j div nat 2) + 2 - 1) * (2 * 2 - 1)
              + (int (i mod nat 2) - int (j mod nat 2) + 2 - 1) \<and>
          0 \<le> tensor_at t [i, j] \<and> tensor_at t [i, j] \<le> (2 * 2 - 1)\<^sup>2 - 1"
    and bld: "\<forall>nh qb qs ad pd kw B N C. 0 < nh \<and> nh \<le> C \<longrightarrow>
          (\<exists>b. WindowAttention_build (WindowAttention_init (PInt 2) nh qb qs ad pd kw) [B, N, C]
                  = Inr b \<and> relative_position_index b = t)"
    by (elim exE conjE)
  have a: "tensor_at t [1, 2] = 2"
    using at [rule_format, of 1 2] by simp
  have c: "\<exists>b. WindowAttention_build
               (WindowAttention_init (PInt 2) 4 True None 0 0
                 \<lparr>name = ''attn'', trainable = True, dtype = ''float32''\<rparr>) [2, 4, 32] = Inr b \<and>
             relative_position_index b = t"
    using bld [rule_format, of 4 32] by simp
  have sh': "shape t = [4, 4]" using sh by simp
  have two: "\<exists>t. WindowAttention_relative_position_index 2 2 = Inr t \<and> shape t = [4, 4] \<and>
        tensor_at t [1, 2] = 2 \<and>
        (\<exists>b. WindowAttention_build
               (WindowAttention_init (PInt 2) 4 True None 0 0
                 \<lparr>name = ''attn'', trainable = True, dtype = ''float32''\<rparr>) [2, 4, 32] = Inr b \<and>
             relative_position_index b = t)"
    using t sh' a c by (intro conjI exI [of _ t])
  show ?thesis
    using h2 two h1 one by (intro conjI)
qed

text \<open>\<open>build\<close> stores the index tensor that the construction returns.\<close>

lemma build_returns_index:
  assumes t: "WindowAttention_relative_position_index W W = Inr t"
    and nh: "0 < nh \<and> nh \<le> C"
  shows "\<exists>b. WindowAttention_build (WindowAttention_init (PInt W) nh qb qs ad pd kw) [B, N, C]
               = Inr b \<and> relative_position_index b = t"
proof -
  have "C div nh \<noteq> 0" using nh by (simp add: div_eq_0_iff)
  then show ?thesis
    using nh
    by (simp add: WindowAttention_build_init [OF t] py_last_def py_floordiv_def py_or_def
        py_pow_minus_half_def split: option.split)
qed

text \<open>
  Claim C7. For every window size \<open>W \<ge> 1\<close>, the index tensor that
  \<^verbatim>\<open>WindowAttention.build\<close> constructs and stores is the \<open>[W\<^sup>2, W\<^sup>2]\<close> matrix whose
  diagonal entries are all equal to the zero-offset row \<open>(2W-1) * (W-1) + (W-1)\<close>; for
  \<open>W = 2\<close> each of the four diagonal entries is 4.
\<close>

theorem relative_position_index_diagonal:
  assumes "1 \<le> W"
  shows "\<exists>t. WindowAttention_relative_position_index W W = Inr t \<and>
             shape t = [nat W * nat W, nat W * nat W] \<and>
             (\<forall>i<nat W * nat W. tensor_at t [i, i] = (2 * W - 1) * (W - 1) + (W - 1)) \<and>
             (W = 2 \<longrightarrow> (\<forall>i<4. tensor_at t [i, i] = 4)) \<and>
             (\<forall>nh qb qs ad pd kw B N C. 0 < nh \<and> nh \<le> C \<longrightarrow>
                (\<exists>b. WindowAttention_build (WindowAttention_init (PInt W) nh qb qs ad pd kw) [B, N, C]
                        = Inr b \<and> relative_position_index b = t))"
proof -
  obtain t where t: "WindowAttention_relative_position_index W W = Inr t"
    and sh: "shape t = [nat W * nat W, nat W * nat W]"
    and at: "\<And>i j. i < nat W * nat W \<Longrightarrow> j < nat W * nat W \<Longrightarrow>
                tensor_at t [i, j]
                  = (int (i div nat W) - int (j div nat W) + W - 1) * (2 * W - 1)
                    + (int (i mod nat W) - int (j mod nat W) + W - 1)"
    using index_spec [of W] by blast
  have diag: "\<forall>i<nat W * nat W. tensor_at t [i, i] = (2 * W - 1) * (W - 1) + (W - 1)"
  proof (intro allI impI)
    fix i assume i: "i < nat W * nat W"
    show "tensor_at t [i, i] = (2 * W - 1) * (W - 1) + (W - 1)"
      using at [OF i i] by (simp add: algebra_simps)
  qed
  have two: "W = 2 \<longrightarrow> (\<forall>i<4. tensor_at t [i, i] = 4)"
    using diag by auto
  have bld: "\<forall>nh qb qs ad pd kw B N C. 0 < nh \<and> nh \<le> C \<longrightarrow>
                (\<exists>b. WindowAttention_build (WindowAttention_init (PInt W) nh qb qs ad pd kw) [B, N, C]
                        = Inr b \<and> relative_position_index b = t)"
    using build_returns_index [OF t] by blast
  show ?thesis
    by (intro exI [of _ t] conjI) (fact t sh diag two bld)+
qed

theorem relative_position_index_diagonal_witness:
  "(1::int) \<le> 2 \<and>
   (\<exists>t. WindowAttention_relative_position_index 2 2 = Inr t \<and> shape t = [4, 4] \<and>
        tensor_at t [0, 0] = 4 \<and> tensor_at t [1, 1] = 4 \<and>
        tensor_at t [2, 2] = 4 \<and> tensor_at t [3, 3] = 4 \<and>
        (\<exists>b. WindowAttention_build
               (WindowAttention_init (PInt 2) 4 True None 0 0 example_kwargs) [2, 4, 32] = Inr b \<and>
             relative_position_index b = t))"
proof -
  have h: "(1::int) \<le> 2" by simp
  from relative_position_index_diagonal [OF h] obtain t where
    t: "WindowAttention_relative_position_index 2 2 = Inr t"
    and sh: "shape t = [nat 2 * nat 2, nat 2 * nat 2]"
    and d: "\<forall>i<nat 2 * nat 2. tensor_at t [i, i] = (2 * 2 - 1) * (2 - 1) + (2 - 1)"
    and two: "(2::int) = 2 \<longrightarrow> (\<forall>i<4. tensor_at t [i, i] = 4)"
    and bld: "\<forall>nh qb qs ad pd kw B N C. 0 < nh \<and> nh \<le> C \<longrightarrow>
          (\<exists>b. WindowAttention_build (WindowAttention_init (PInt 2) nh qb qs ad pd kw) [B, N, C]
                  = Inr b \<and> relative_position_index b = t)"
    by (elim exE conjE)
  have d4: "\<forall>i<4. tensor_at t [i, i] = 4" using two by simp
  have e0: "tensor_at t [0, 0] = 4" using d4 [rule_format, of 0] by simp
  have e1: "tensor_at t [1, 1] = 4" using d4 [rule_format, of 1] by simp
  have e2: "tensor_at t [2, 2] = 4" using d4 [rule_format, of 2] by simp
  have e3: "tensor_at t [3, 3] = 4" using d4 [rule_format, of 3] by simp
  have sh': "shape t = [4, 4]" using sh by simp
  have c: "\<exists>b. WindowAttention_build
               (WindowAttention_init (PInt 2) 4 True None 0 0 example_kwargs) [2, 4, 32] = Inr b \<and>
             relative_position_index b = t"
    using bld [rule_format, of 4 32] by simp
  have "\<exists>t. WindowAttention_relative_position_index 2 2 = Inr t \<and> shape t = [4, 4] \<and>
        tensor_at t [0, 0] = 4 \<and> tensor_at t [1, 1] = 4 \<and>
        tensor_at t [2, 2] = 4 \<and> tensor_at t [3, 3] = 4 \<and>
        (\<exists>b. WindowAttention_build
               (WindowAttention_init (PInt 2) 4 True None 0 0 example_kwargs) [2, 4, 32] = Inr b \<and>
             relative_position_index b = t)"
    by (intro exI [of _ t] conjI) (fact t sh' e0 e1 e2 e3 c)+
  then show ?thesis using h by (intro conjI)
qed

text \<open>
  Claim C10. For every window size \<open>W \<ge> 1\<close> and every pair of flattened positions of
  the \<open>[W\<^sup>2, W\<^sup>2]\<close> index matrix that \<^verbatim>\<open>WindowAttention.build\<close> constructs and stores,
  \<open>index(i,j) + index(j,i) = (2W-1)\<^sup>2 - 1\<close>: the two entries, both rows of the bias table,
  are reflections of each other about its centre.
\<close>

theorem relative_position_index_reflection:
  assumes "1 \<le> W"
  shows "\<exists>t. WindowAttention_relative_position_index W W = Inr t \<and>
             shape t = [nat W * nat W, nat W * nat W] \<and>
             (\<forall>i<nat W * nat W. \<forall>j<nat W * nat W.
                tensor_at t [i, j] + tensor_at t [j, i] = (2 * W - 1)\<^sup>2 - 1 \<and>
                0 \<le> tensor_at t [i, j] \<and> tensor_at t [i, j] \<le> (2 * W - 1)\<^sup>2 - 1) \<and>
             (\<forall>nh qb qs ad pd kw B N C. 0 < nh \<and> nh \<le> C \<longrightarrow>
                (\<exists>b. WindowAttention_build (WindowAttention_init (PInt W) nh qb qs ad pd kw) [B, N, C]
                        = Inr b \<and> relative_position_index b = t))"
proof -
  obtain t where t: "WindowAttention_relative_position_index W W = Inr t"
    and sh: "shape t = [nat W * nat W, nat W * nat W]"
    and at: "\<And>i j. i < nat W * nat W \<Longrightarrow> j < nat W * nat W \<Longrightarrow>
                tensor_at t [i, j]
                  = (int (i div nat W) - int (j div nat W) + W - 1) * (2 * W - 1)
                    + (int (i mod nat W) - int (j mod nat W) + W - 1)"
    using index_spec [of W] by blast
  have refl: "\<forall>i<nat W * nat W. \<forall>j<nat W * nat W.
                tensor_at t [i, j] + tensor_at t [j, i] = (2 * W - 1)\<^sup>2 - 1 \<and>
                0 \<le> tensor_at t [i, j] \<and> tensor_at t [i, j] \<le> (2 * W - 1)\<^sup>2 - 1"
  proof (intro allI impI)
    fix i j assume i: "i < nat W * nat W" and j: "j < nat W * nat W"
    have s: "tensor_at t [i, j] + tensor_at t [j, i] = (2 * W - 1)\<^sup>2 - 1"
      using at [OF i j] at [OF j i] by (simp add: power2_eq_square algebra_simps)
    have r: "0 \<le> tensor_at t [i, j] \<and> tensor_at t [i, j] \<le> (2 * W - 1)\<^sup>2 - 1"
      using index_range [OF refl i j] at [OF i j] by simp
    show "tensor_at t [i, j] + tensor_at t [j, i] = (2 * W - 1)\<^sup>2 - 1 \<and>
          0 \<le> tensor_at t [i, j] \<and> tensor_at t [i, j] \<le> (2 * W - 1)\<^sup>2 - 1"
      using s r by simp
  qed
  have bld: "\<forall>nh qb qs ad pd kw B N C. 0 < nh \<and> nh \<le> C \<longrightarrow>
                (\<exists>b. WindowAttention_build (WindowAttention_init (PInt W) nh qb qs ad pd kw) [B, N, C]
                        = Inr b \<and> relative_position_index b = t)"
    using build_returns_index [OF t] by blast
  show ?thesis
    by (intro exI [of _ t] conjI) (fact t sh refl bld)+
qed

theorem relative_position_index_reflection_witness:
  "(1::int) \<le> 2 \<and>
   (\<exists>t. WindowAttention_relative_position_index 2 2 = Inr t \<and> shape t = [4, 4] \<and>
        tensor_at t [0, 3] + tensor_at t [3, 0] = 8 \<and>
        tensor_at t [1, 2] + tensor_at t [2, 1] = 8 \<and>
        (\<exists>b. WindowAttention_build
               (WindowAttention_init (PInt 2) 4 True None 0 0 example_kwargs) [2, 4, 32] = Inr b \<and>
             relative_position_index b = t))"
proof -
  have h: "(1::int) \<le> 2" by simp
  from relative_position_index_reflection [OF h] obtain t where
    t: "WindowAttention_relative_position_index 2 2 = Inr t"
    and sh: "shape t = [nat 2 * nat 2, nat 2 * nat 2]"
    and r: "\<forall>i<nat 2 * nat 2. \<forall>j<nat 2 * nat 2.
          tensor_at t [i, j] + tensor_at t [j, i] = (2 * 2 - 1)\<^sup>2 - 1 \<and>
          0 \<le> tensor_at t [i, j] \<and> tensor_at t [i, j] \<le> (2 * 2 - 1)\<^sup>2 - 1"
    and bld: "\<forall>nh qb qs ad pd kw B N C. 0 < nh \<and> nh \<le> C \<longrightarrow>
          (\<exists>b. WindowAttention_build (WindowAttention_init (PInt 2) nh qb qs ad pd kw) [B, N, C]
                  = Inr b \<and> relative_position_index b = t)"
    by (elim exE conjE)
  have a: "tensor_at t [0, 3] + tensor_at t [3, 0] = 8" using r [rule_format, of 0 3] by simp
  have b: "tensor_at t [1, 2] + tensor_at t [2, 1] = 8" using r [rule_format, of 1 2] by simp
  have sh': "shape t = [4, 4]" using sh by simp
  have c: "\<exists>b. WindowAttention_build
               (WindowAttention_init (PInt 2) 4 True None 0 0 example_kwargs) [2, 4, 32] = Inr b \<and>
             relative_position_index b = t"
    using bld [rule_format, of 4 32] by simp
  have "\<exists>t. WindowAttention_relative_position_index 2 2 = Inr t \<and> shape t = [4, 4] \<and>
        tensor_at t [0, 3] + tensor_at t [3, 0] = 8 \<and>
        tensor_at t [1, 2] + tensor_at t [2, 1] = 8 \<and>
        (\<exists>b. WindowAttention_build
               (WindowAttention_init (PInt 2) 4 True None 0 0 example_kwargs) [2, 4, 32] = Inr b \<and>
             relative_position_index b = t)"
    by (intro exI [of _ t] conjI) (fact t sh' a b c)+
  then show ?thesis using h by (intro conjI)
qed

section \<open>The duplicated construction\<close>

lemma global_index_eq:
  "WindowAttentionGlobal_relative_position_index a b = WindowAttention_relative_position_index a b"
  by (simp add: WindowAttentionGlobal_relative_position_index_def
      WindowAttention_relative_position_index_def)

lemma WindowAttentionGlobal_build_init:
  assumes "WindowAttention_relative_position_index W W = Inr t"
  shows "WindowAttentionGlobal_build (WindowAttentionGlobal_init (PInt W) nh qb qs ad pd kw) shs
         = bind_err (py_first shs) (\<lambda>shape0.
           bind_err (py_last shape0) (\<lambda>dim.
           bind_err (py_floordiv dim nh) (\<lambda>head_dim.
           bind_err (py_or qs (py_pow_minus_half head_dim)) (\<lambda>scale'.
             Inr \<lparr>scale = scale',
                  qkv = \<lparr>units = dim * 2, use_bias = qb\<rparr>,
                  relative_position_bias_table = [nat ((2 * W - 1) * (2 * W - 1)), nh],
                  relative_position_index = t,
                  attn_drop = ad,
                  proj = \<lparr>units = dim, use_bias = True\<rparr>,
                  proj_drop = pd\<rparr>))))"
  by (simp add: WindowAttentionGlobal_build_def WindowAttentionGlobal_init_def
      bias_table_shape_def window_extent_def py_getitem_def py_int_def global_index_eq assms
      not_less)

text \<open>
  Claim C9. The index construction that appears twice in the source is one function of
  the window size: the two index tensors are equal, the two \<open>build\<close> methods fail
  together or leave equal index tensors and bias tables of equal shape, and for a window
  of edge \<open>W\<close> that shape is \<open>[(2W-1)\<^sup>2, num_heads]\<close>.
\<close>

theorem duplicated_index_construction:
  "WindowAttentionGlobal_relative_position_index w0 w1
     = WindowAttention_relative_position_index w0 w1 \<and>
   map_sum id (\<lambda>b. (relative_position_index b, relative_position_bias_table b))
     (WindowAttentionGlobal_build (WindowAttentionGlobal_init ws nh qb qs ad pd kw) (sh # rest))
     = map_sum id (\<lambda>b. (relative_position_index b, relative_position_bias_table b))
         (WindowAttention_build (WindowAttention_init ws nh qb qs ad pd kw) sh) \<and>
   (\<forall>b. WindowAttention_build (WindowAttention_init (PInt W) nh qb qs ad pd kw) sh = Inr b \<longrightarrow>
        relative_position_bias_table b = [nat ((2 * W - 1)\<^sup>2), nh]) \<and>
   (\<forall>b. WindowAttentionGlobal_build (WindowAttentionGlobal_init (PInt W) nh qb qs ad pd kw) (sh # rest)
          = Inr b \<longrightarrow>
        relative_position_bias_table b = [nat ((2 * W - 1)\<^sup>2), nh])"
proof -
  have eq: "WindowAttentionGlobal_relative_position_index a b
            = WindowAttention_relative_position_index a b" for a b
    by (rule global_index_eq)
  have builds: "map_sum id (\<lambda>b. (relative_position_index b, relative_position_bias_table b))
     (WindowAttentionGlobal_build (WindowAttentionGlobal_init ws nh qb qs ad pd kw) (sh # rest))
     = map_sum id (\<lambda>b. (relative_position_index b, relative_position_bias_table b))
         (WindowAttention_build (WindowAttention_init ws nh qb qs ad pd kw) sh)" for ws
    by (simp add: WindowAttentionGlobal_build_def WindowAttention_build_def
        WindowAttentionGlobal_init_def WindowAttention_init_def py_first_def eq bind_err_def
        split: sum.splits)
  obtain t where t: "WindowAttention_relative_position_index W W = Inr t"
    using index_spec [of W] by blast
  have tab: "relative_position_bias_table b = [nat ((2 * W - 1)\<^sup>2), nh]"
    if "WindowAttention_build (WindowAttention_init (PInt W) nh qb qs ad pd kw) sh = Inr b" for b
    using that
    by (auto simp: WindowAttention_build_init [OF t] bind_err_def power2_eq_square
        split: sum.splits)
  have tabg: "relative_position_bias_table b = [nat ((2 * W - 1)\<^sup>2), nh]"
    if "WindowAttentionGlobal_build (WindowAttentionGlobal_init (PInt W) nh qb qs ad pd kw)
            (sh # rest) = Inr b" for b
    using that
    by (auto simp: WindowAttentionGlobal_build_init [OF t] py_first_def bind_err_def
        power2_eq_square split: sum.splits)
  show ?thesis using eq builds tab tabg by blast
qed

theorem duplicated_index_construction_witness:
  "WindowAttentionGlobal_relative_position_index 2 2 = WindowAttention_relative_position_index 2 2 \<and>
   (\<exists>b. WindowAttention_build
          (WindowAttention_init (PInt 2) 4 True None 0 0
            \<lparr>name = ''attn'', trainable = True, dtype = ''float32''\<rparr>) [2, 4, 32] = Inr b \<and>
        relative_position_bias_table b = [9, 4])"
proof -
  define kw where "kw = \<lparr>name = ''attn'', trainable = True, dtype = ''float32''\<rparr>"
  obtain t where t: "WindowAttention_relative_position_index 2 2 = Inr t"
    using index_spec [of 2] by blast
  obtain b where b: "WindowAttention_build (WindowAttention_init (PInt 2) 4 True None 0 0 kw)
                       [2, 4, 32] = Inr b"
    by (simp add: WindowAttention_build_init [OF t] py_last_def py_floordiv_def py_or_def
        py_pow_minus_half_def)
  note inst = duplicated_index_construction [of 2 2 "PInt 2" 4 True None 0 0 kw "[2, 4, 32]" "[]" 2]
  have "relative_position_bias_table b = [nat ((2 * 2 - 1)\<^sup>2), 4]"
    using inst b by blast
  then have "relative_position_bias_table b = [9, 4]" by simp
  moreover have "WindowAttentionGlobal_relative_position_index 2 2
                 = WindowAttention_relative_position_index 2 2"
    using inst by blast
  ultimately show ?thesis using b unfolding kw_def by blast
qed


section \<open>Configuration round trip\<close>

lemma config_round_trip_other_fields:
  "num_heads (WindowAttention_from_config (WindowAttention_get_config self)) = num_heads self \<and>
   qkv_bias (WindowAttention_from_config (WindowAttention_get_config self)) = qkv_bias self \<and>
   qk_scale (WindowAttention_from_config (WindowAttention_get_config self)) = qk_scale self \<and>
   attn_dropout (WindowAttention_from_config (WindowAttention_get_config self)) = attn_dropout self \<and>
   proj_dropout (WindowAttention_from_config (WindowAttention_get_config self)) = proj_dropout self \<and>
   kwargs (WindowAttention_from_config (WindowAttention_get_config self)) = kwargs self \<and>
   window_size (WindowAttention_from_config (WindowAttention_get_config self))
     = PTuple [window_size self, window_size self]"
  by (simp add: WindowAttention_from_config_def WindowAttention_get_config_def
      WindowAttention_init_def)

lemma config_round_trip_never_window_size:
  "window_size (WindowAttention_from_config (WindowAttention_get_config self)) \<noteq> window_size self"
proof -
  have "PTuple [v, v] \<noteq> v" for v :: pyval
  proof
    assume "PTuple [v, v] = v"
    then have "size (PTuple [v, v]) = size v" by simp
    then show False by simp
  qed
  then show ?thesis by (simp add: config_round_trip_other_fields)
qed

text \<open>
  Claim C3 says that a layer constructed from another layer's \<^verbatim>\<open>get_config\<close> has the
  same configuration fields. \<^verbatim>\<open>get_config\<close> returns the pair that \<^verbatim>\<open>__init__\<close> stored as
  \<^verbatim>\<open>window_size\<close>, and \<^verbatim>\<open>__init__\<close> wraps it in a pair again: the five other fields and
  the base configuration are reproduced, the window size never is, and \<open>build\<close> on the
  reconstructed layer raises TypeError. Evaluated for
  \<^verbatim>\<open>WindowAttention(window_size=3, num_heads=4)\<close> and its global sibling.
\<close>

theorem config_round_trip_window_size:
  "window_size (WindowAttention_init (PInt 3) 4 True None 0 0
      \<lparr>name = ''attn'', trainable = True, dtype = ''float32''\<rparr>) = PTuple [PInt 3, PInt 3] \<and>
   window_size (WindowAttention_from_config (WindowAttention_get_config
      (WindowAttention_init (PInt 3) 4 True None 0 0
        \<lparr>name = ''attn'', trainable = True, dtype = ''float32''\<rparr>)))
     = PTuple [PTuple [PInt 3, PInt 3], PTuple [PInt 3, PInt 3]] \<and>
   window_size (WindowAttentionGlobal_from_config (WindowAttentionGlobal_get_config
      (WindowAttentionGlobal_init (PInt 3) 4 True None 0 0
        \<lparr>name = ''attn'', trainable = True, dtype = ''float32''\<rparr>)))
     = PTuple [PTuple [PInt 3, PInt 3], PTuple [PInt 3, PInt 3]] \<and>
   WindowAttention_build (WindowAttention_from_config (WindowAttention_get_config
      (WindowAttention_init (PInt 3) 4 True None 0 0
        \<lparr>name = ''attn'', trainable = True, dtype = ''float32''\<rparr>))) [2, 9, 32]
     = Inl TypeError"
  by (simp add: WindowAttention_from_config_def WindowAttention_get_config_def
      WindowAttention_init_def WindowAttentionGlobal_from_config_def
      WindowAttentionGlobal_get_config_def WindowAttentionGlobal_init_def
      WindowAttention_build_def py_last_def py_floordiv_def py_or_def py_pow_minus_half_def
      bias_table_shape_def window_extent_def py_getitem_def py_int_def)

section \<open>The attention scale\<close>

lemma WindowAttention_scale:
  assumes "WindowAttention_build (WindowAttention_init (PInt W) nh qb qs ad pd kw) [B, N, C] = Inr b"
  shows "scale b = (case qs of
                      None \<Rightarrow> real (C div nh) powr (- (1 / 2))
                    | Some x \<Rightarrow> if x = 0 then real (C div nh) powr (- (1 / 2)) else x)"
proof -
  obtain t where t: "WindowAttention_relative_position_index W W = Inr t"
    using index_spec [of W] by blast
  show ?thesis
    using assms
    by (auto simp: WindowAttention_build_init [OF t] py_last_def py_floordiv_def py_or_def
        py_pow_minus_half_def bind_err_def split: if_splits option.splits sum.splits)
qed

text \<open>
  Claim C6 says that the scale is \<^verbatim>\<open>qk_scale\<close> for any provided value, 0 included, and
  \<open>head_dim\<^sup>-\<^sup>0\<^sup>.\<^sup>5\<close> when none is provided. \<^verbatim>\<open>self.qk_scale or head_dim ** -0.5\<close> takes
  the default for \<^verbatim>\<open>None\<close> and also for \<^verbatim>\<open>0.0\<close>. Evaluated for \<^verbatim>\<open>qk_scale=0.0\<close> with 32
  channels and 4 heads: the scale is \<open>8\<^sup>-\<^sup>0\<^sup>.\<^sup>5\<close>, not 0.
\<close>

theorem zero_qk_scale_is_replaced:
  "map_sum id scale
     (WindowAttention_build
        (WindowAttention_init (PInt 2) 4 True (Some 0) 0 0
          \<lparr>name = ''attn'', trainable = True, dtype = ''float32''\<rparr>) [1, 4, 32])
     = Inr (8 powr (- (1 / 2))) \<and>
   (8 :: real) powr (- (1 / 2)) \<noteq> 0"
proof -
  obtain t where t: "WindowAttention_relative_position_index 2 2 = Inr t"
    using index_spec [of 2] by blast
  show ?thesis
    by (simp add: WindowAttention_build_init [OF t] py_last_def py_floordiv_def py_or_def
        py_pow_minus_half_def)
qed
section \<open>The attention computation on shapes\<close>

lemma index_elems_range:
  assumes "WindowAttention_relative_position_index W W = Inr t"
  shows "list_all (\<lambda>e. 0 \<le> e \<and> e < (2 * W - 1) * (2 * W - 1)) (elems t)"
proof -
  define n where "n = nat W"
  obtain u where u: "WindowAttention_relative_position_index W W = Inr u"
    and sh: "shape u = [n * n, n * n]" and wf: "wf_tensor u"
    and at: "\<And>i j. i < n * n \<Longrightarrow> j < n * n \<Longrightarrow>
                tensor_at u [i, j]
                  = (int (i div n) - int (j div n) + W - 1) * (2 * W - 1)
                    + (int (i mod n) - int (j mod n) + W - 1)"
    using index_spec [of W] unfolding n_def by blast
  have tu: "t = u" using assms u by simp
  have len: "length (elems t) = n * n * (n * n)"
    using wf sh by (simp add: tu wf_tensor_def)
  have "0 \<le> elems t ! k \<and> elems t ! k < (2 * W - 1) * (2 * W - 1)" if k: "k < length (elems t)" for k
  proof -
    have kk: "k < numel [n * n, n * n]" using k len by simp
    have v: "valid_index [n * n, n * n] (unravel [n * n, n * n] k)"
      using unravel_valid [OF kk] .
    obtain i j where ij: "unravel [n * n, n * n] k = [i, j]" and i: "i < n * n" and j: "j < n * n"
      using v by (auto simp: valid_index_Cons)
    have "elems t ! k = tensor_at t [i, j]"
      using ravel_unravel [OF kk] by (simp add: tensor_at_def tu sh ij [symmetric])
    then have e: "elems t ! k = (int (i div n) - int (j div n) + W - 1) * (2 * W - 1)
                    + (int (i mod n) - int (j mod n) + W - 1)"
      using at [OF i j] by (simp add: tu)
    show ?thesis
      using index_range [OF n_def i j] unfolding e by (simp add: power2_eq_square)
  qed
  then show ?thesis by (simp add: list_all_length)
qed

lemma unstack_3:
  assumes "shape t = 3 # s" "wf_tensor t"
  shows "\<exists>q k v. tf_unstack t = Inr [q, k, v] \<and> shape q = s \<and> shape k = s \<and> shape v = s \<and>
                  wf_tensor q \<and> wf_tensor k \<and> wf_tensor v"
  using assms by (simp add: tf_unstack_def upt_3 wf_tensor_def)

lemma unstack_2:
  assumes "shape t = 2 # s" "wf_tensor t"
  shows "\<exists>k v. tf_unstack t = Inr [k, v] \<and> shape k = s \<and> shape v = s \<and>
                wf_tensor k \<and> wf_tensor v"
proof -
  have "[0..<2] = [0, 1]" by (simp add: upt_rec numeral_eq_Suc)
  then show ?thesis using assms by (simp add: tf_unstack_def wf_tensor_def)
qed

lemma shape_keras_dropout [simp]: "shape (keras_dropout r tr keep x) = shape x"
  by (simp add: keras_dropout_def)

lemma wf_keras_dropout [simp]: "wf_tensor (keras_dropout r tr keep x) = wf_tensor x"
  by (simp add: keras_dropout_def wf_tensor_def)

lemma relative_position_bias_ok:
  assumes W: "1 \<le> W"
    and ws: "window_size self = PTuple [PInt W, PInt W]"
    and idx: "WindowAttention_relative_position_index W W = Inr (relative_position_index built)"
    and tab: "relative_position_bias_table built = [nat ((2 * W - 1) * (2 * W - 1)), nh]"
  shows "\<exists>y. relative_position_bias self built weights = Inr y \<and>
             shape y = [1, nh, nat W * nat W, nat W * nat W]"
proof -
  define n where "n = nat W"
  define t where "t = relative_position_index built"
  obtain u where u: "WindowAttention_relative_position_index W W = Inr u"
    and sh: "shape u = [n * n, n * n]" and wf: "wf_tensor u"
    using index_spec [of W] unfolding n_def by blast
  have tu: "t = u" using idx u by (simp add: t_def)
  have npos: "0 < n" using W by (simp add: n_def)
  have len: "length (elems t) = n * n * (n * n)"
    using wf sh by (simp add: tu wf_tensor_def)
  define flat where "flat = Tensor [n * n * (n * n)] (elems t)"
  have r1: "tf_reshape t [- 1] = Inr flat"
    by (simp add: tf_reshape_def len flat_def)
  define table where "table = tabulate (relative_position_bias_table built)
                    (\<lambda>idx. table_values weights (idx ! 0) (idx ! 1))"
  have rng: "list_all (\<lambda>i. 0 \<le> i \<and> i < int (nat ((2 * W - 1) * (2 * W - 1)))) (elems flat)"
    using index_elems_range [OF idx] by (simp add: flat_def t_def)
  obtain g where g: "tf_gather table flat = Inr g" and shg: "shape g = [n * n * (n * n), nh]"
    and wfg: "wf_tensor g"
    using rng by (simp add: tf_gather_def table_def tab flat_def)
  have WW: "nat (W * W) = n * n" using W by (simp add: n_def nat_mult_distrib)
  have leng: "length (elems g) = n * n * (n * n) * nh"
    using wfg shg by (simp add: wf_tensor_def)
  define b3 where "b3 = Tensor [n * n, n * n, nh] (elems g)"
  have WWpos: "0 < W * W" using W by simp
  have r2: "tf_reshape g [W * W, W * W, - 1] = Inr b3"
    using WWpos npos by (simp add: tf_reshape_def leng WW b3_def Let_def)
  have shb3: "shape b3 = [n * n, n * n, nh]" by (simp add: b3_def)
  define bt where "bt = tabulate [nh, n * n, n * n]
                          (\<lambda>idx. tensor_at b3 [idx ! 1, idx ! 2, idx ! 0])"
  have bt: "tf_transpose b3 [2, 0, 1] = Inr bt"
    unfolding bt_def by (rule transpose_201 [OF shb3])
  have shbt: "shape bt = [nh, n * n, n * n]" by (simp add: bt_def)
  have ex: "tf_expand_dims bt 0 = Inr (Tensor [1, nh, n * n, n * n] (elems bt))"
    by (simp add: tf_expand_dims_def shbt)
  have we: "window_extent (window_size self) 0 = Inr W" "window_extent (window_size self) 1 = Inr W"
    by (simp_all add: ws window_extent_def py_getitem_def py_int_def)
  have "relative_position_bias self built weights = Inr (Tensor [1, nh, n * n, n * n] (elems bt))"
    unfolding relative_position_bias_def Let_def table_def [symmetric] t_def [symmetric]
    by (simp only: r1 bind_err_Inr g we r2 bt ex)
  then show ?thesis by (simp add: n_def)
qed

lemma broadcast_batch:
  assumes "m = n \<or> m = Suc 0"
  shows "broadcast_shape [b, h, n, n] [Suc 0, h, m, m] = Some [b, h, n, n]"
  using assms by (auto simp: broadcast_shape_def)

lemma attention_output_ok:
  assumes W: "1 \<le> W"
    and ws: "window_size self = PTuple [PInt W, PInt W]"
    and idx: "WindowAttention_relative_position_index W W = Inr (relative_position_index built)"
    and tab: "relative_position_bias_table built = [nat ((2 * W - 1) * (2 * W - 1)), nh]"
    and pr: "units (proj built) = C"
    and N: "N = nat W * nat W \<or> W = 1"
    and q: "shape q = [B', nh, N, dh]" and k: "shape k = [B', nh, N, dh]"
    and v: "shape v = [B', nh, N, dh]"
    and cnt: "B' * (nh * dh) = B' * C"
  shows "\<exists>y. attention_output self built weights ctx B' N C q k v = Inr y \<and>
             shape y = [B', N, C] \<and> wf_tensor y"
proof -
  define kT where "kT = tabulate [B', nh, dh, N]
                          (\<lambda>idx. tensor_at k [idx ! 0, idx ! 1, idx ! 3, idx ! 2])"
  have t1: "tf_transpose k [0, 1, 3, 2] = Inr kT"
    unfolding kT_def by (rule transpose_0132 [OF k])
  have shkT: "shape kT = [B', nh, dh, N]" by (simp add: kT_def)
  obtain attn where m1: "tf_matmul q kT = Inr attn" and sha: "shape attn = [B', nh, N, N]"
    using matmul_rank4 [OF q shkT] by blast
  define M where "M = nat W * nat W"
  have MN: "M = N \<or> M = Suc 0" using N by (auto simp: M_def)
  obtain bias where b: "relative_position_bias self built weights = Inr bias"
    and shb: "shape bias = [1, nh, M, M]"
    using relative_position_bias_ok [OF W ws idx tab] unfolding M_def by blast
  define attn2 where "attn2 = tabulate [B', nh, N, N]
      (\<lambda>idx. tensor_at attn (broadcast_index (shape attn) idx)
             + tensor_at bias (broadcast_index (shape bias) idx))"
  have add: "tf_binop (+) attn bias = Inr attn2"
    by (simp add: tf_binop_def sha shb broadcast_batch [OF MN] attn2_def)
  define attn3 where "attn3 = tabulate [B', nh, N, N]
             (\<lambda>idx. exp (tensor_at attn2 idx)
                    / sum_list (map (\<lambda>j. exp (tensor_at attn2 (butlast idx @ [j])))
                                    [0..<last (shape attn2)]))"
  have sm: "keras_softmax attn2 = Inr attn3"
    by (simp add: keras_softmax_def attn2_def attn3_def)
  define attn4 where "attn4 = keras_dropout (attn_drop built) (training ctx) (attn_keep ctx) attn3"
  have sh4: "shape attn4 = [B', nh, N, N]" by (simp add: attn4_def attn3_def)
  obtain x1 where m2: "tf_matmul attn4 v = Inr x1" and shx1: "shape x1 = [B', nh, N, dh]"
    using matmul_rank4 [OF sh4 v] by blast
  define x2 where "x2 = tabulate [B', N, nh, dh]
                          (\<lambda>idx. tensor_at x1 [idx ! 0, idx ! 2, idx ! 1, idx ! 3])"
  have t2: "tf_transpose x1 [0, 2, 1, 3] = Inr x2"
    unfolding x2_def by (rule transpose_0213 [OF shx1])
  define x3 where "x3 = Tensor [B', N, C] (elems x2)"
  have cnt': "B' * (N * C) = B' * (N * (nh * dh))"
    using cnt by (metis mult.left_commute)
  have r: "tf_reshape x2 [int B', int N, int C] = Inr x3"
    using tf_reshape_nat [of x2 "[B', N, C]"] by (simp add: x2_def x3_def cnt')
  define x4 where "x4 = tabulate (butlast (shape x3) @ [units (proj built)])
             (\<lambda>idx. sum_list (map (\<lambda>c. tensor_at x3 (butlast idx @ [c]) * proj_kernel weights c (last idx))
                                 [0..<last (shape x3)])
                    + (if use_bias (proj built) then proj_bias_vector weights (last idx) else 0))"
  have d: "keras_dense (proj built) (proj_kernel weights) (proj_bias_vector weights) x3 = Inr x4"
    by (simp add: keras_dense_def x3_def x4_def)
  have shx4: "shape x4 = [B', N, C]" by (simp add: x4_def x3_def pr)
  have "attention_output self built weights ctx B' N C q k v
        = Inr (keras_dropout (proj_drop built) (training ctx) (proj_keep ctx) x4)"
    unfolding attention_output_def attention_logits_def attention_from_logits_def Let_def
    by (simp only: t1 bind_err_Inr m1 b add sm attn4_def [symmetric] m2 t2 r d)
  moreover have "wf_tensor x4" by (simp add: x4_def)
  ultimately show ?thesis using shx4 by simp
qed

lemma WindowAttention_call_ok:
  assumes W: "1 \<le> W"
    and ws: "window_size self = PTuple [PInt W, PInt W]"
    and idx: "WindowAttention_relative_position_index W W = Inr (relative_position_index built)"
    and tab: "relative_position_bias_table built = [nat ((2 * W - 1) * (2 * W - 1)), num_heads self]"
    and pr: "units (proj built) = C"
    and qk: "units (qkv built) = C * 3"
    and nh: "0 < num_heads self"
    and sh: "shape inputs = [B', nat W * nat W, C]"
    and cnt: "B' * (num_heads self * (C div num_heads self)) = B' * C"
  shows "\<exists>y. WindowAttention_call self built weights ctx inputs = Inr y \<and>
             shape y = [B', nat W * nat W, C] \<and> wf_tensor y"
proof -
  define N where "N = nat W * nat W"
  define dh where "dh = C div num_heads self"
  define h where "h = num_heads self"
  define y1 where "y1 = tabulate (butlast (shape inputs) @ [units (qkv built)])
             (\<lambda>idx. sum_list (map (\<lambda>c. tensor_at inputs (butlast idx @ [c]) * qkv_kernel weights c (last idx))
                                 [0..<last (shape inputs)])
                    + (if use_bias (qkv built) then qkv_bias_vector weights (last idx) else 0))"
  have d: "keras_dense (qkv built) (qkv_kernel weights) (qkv_bias_vector weights) inputs = Inr y1"
    by (simp add: keras_dense_def sh y1_def)
  have fd: "tf_floordiv C (num_heads self) = Inr dh"
    using nh by (simp add: tf_floordiv_def dh_def)
  define y2 where "y2 = Tensor [B', N, 3, h, dh] (elems y1)"
  have cnt': "B' * (N * (C * 3)) = B' * (N * (3 * (h * dh)))"
  proof -
    have "B' * (N * (C * 3)) = (B' * C) * (N * 3)" by (simp add: algebra_simps)
    also have "\<dots> = (B' * (h * dh)) * (N * 3)" by (simp only: h_def dh_def cnt)
    also have "\<dots> = B' * (N * (3 * (h * dh)))" by (simp add: algebra_simps)
    finally show ?thesis .
  qed
  have shN: "shape inputs = [B', N, C]" by (simp add: sh N_def)
  have r: "tf_reshape y1 [int B', int N, 3, int (num_heads self), int dh] = Inr y2"
    using tf_reshape_nat [of y1 "[B', N, 3, h, dh]"] cnt'
    by (simp add: y1_def y2_def shN qk h_def)
  have shy2: "shape y2 = [B', N, 3, h, dh]" by (simp add: y2_def)
  define y3 where "y3 = tabulate [3, B', h, N, dh]
                 (\<lambda>idx. tensor_at y2 [idx ! 1, idx ! 3, idx ! 0, idx ! 2, idx ! 4])"
  have t: "tf_transpose y2 [2, 0, 3, 1, 4] = Inr y3"
    unfolding y3_def by (rule transpose_20314 [OF shy2])
  have "shape y3 = 3 # [B', h, N, dh]" "wf_tensor y3" by (simp_all add: y3_def)
  then obtain q k v where u: "tf_unstack y3 = Inr [q, k, v]"
    and shq: "shape q = [B', h, N, dh]" and shk: "shape k = [B', h, N, dh]"
    and shv: "shape v = [B', h, N, dh]"
    using unstack_3 [of y3 "[B', h, N, dh]"] by blast
  have shq': "shape (tf_map (\<lambda>x. x * scale built) q) = [B', h, N, dh]" using shq by simp
  have cnt2: "B' * (h * dh) = B' * C" by (simp only: h_def dh_def cnt)
  obtain y where y: "attention_output self built weights ctx B' N C
                       (tf_map (\<lambda>x. x * scale built) q) k v = Inr y"
    and shy: "shape y = [B', N, C]" and wfy: "wf_tensor y"
    using attention_output_ok [OF W ws idx tab [folded h_def] pr disjI1 [OF N_def] shq' shk shv cnt2]
    by blast
  have "WindowAttention_call self built weights ctx inputs = Inr y"
    unfolding WindowAttention_call_def sh N_def [symmetric]
    by (simp only: list.case d bind_err_Inr fd r t u y)
  then show ?thesis using shy wfy by (simp add: N_def)
qed

section \<open>Channels that the heads do not divide\<close>

lemma WindowAttention_build_cases:
  "WindowAttention_build (WindowAttention_init (PInt W) nh qb qs ad pd kw) [B', N, C]
   = Inl ZeroDivisionError \<and> (nh = 0 \<or> (C div nh = 0 \<and> (qs = None \<or> qs = Some 0)))
   \<or> (\<exists>b. WindowAttention_build (WindowAttention_init (PInt W) nh qb qs ad pd kw) [B', N, C] = Inr b \<and>
          WindowAttention_relative_position_index W W = Inr (relative_position_index b) \<and>
          relative_position_bias_table b = [nat ((2 * W - 1) * (2 * W - 1)), nh] \<and>
          units (qkv b) = C * 3 \<and> units (proj b) = C \<and>
          scale b = (case qs of
                       None \<Rightarrow> real (C div nh) powr (- (1 / 2))
                     | Some s \<Rightarrow> if s = 0 then real (C div nh) powr (- (1 / 2)) else s)) \<and>
     \<not> (nh = 0 \<or> (C div nh = 0 \<and> (qs = None \<or> qs = Some 0)))"
proof -
  obtain t where t: "WindowAttention_relative_position_index W W = Inr t"
    using index_spec [of W] by blast
  show ?thesis
    by (auto simp: WindowAttention_build_init [OF t] t py_last_def py_floordiv_def py_or_def
        py_pow_minus_half_def split: option.splits)
qed

lemma WindowAttention_apply_ok:
  assumes W: "1 \<le> W" and nh: "0 < nh"
    and sh: "shape x = [B', nat W * nat W, C]"
    and cnt: "B' * (nh * (C div nh)) = B' * C"
    and sc: "C div nh \<noteq> 0 \<or> (\<exists>s. qs = Some s \<and> s \<noteq> 0)"
  shows "\<exists>y. WindowAttention_apply (WindowAttention_init (PInt W) nh qb qs ad pd kw) w ctx x = Inr y \<and>
             shape y = [B', nat W * nat W, C] \<and> wf_tensor y"
proof -
  define self where "self = WindowAttention_init (PInt W) nh qb qs ad pd kw"
  have ok: "\<not> (nh = 0 \<or> (C div nh = 0 \<and> (qs = None \<or> qs = Some 0)))"
    using nh sc by auto
  obtain b where b: "WindowAttention_build self [B', nat W * nat W, C] = Inr b"
    and idx: "WindowAttention_relative_position_index W W = Inr (relative_position_index b)"
    and tab: "relative_position_bias_table b = [nat ((2 * W - 1) * (2 * W - 1)), nh]"
    and qk: "units (qkv b) = C * 3" and pr: "units (proj b) = C"
    using WindowAttention_build_cases [of W nh qb qs ad pd kw B' "nat W * nat W" C] ok
    unfolding self_def by blast
  have ws: "window_size self = PTuple [PInt W, PInt W]" and h: "num_heads self = nh"
    by (simp_all add: self_def WindowAttention_init_def)
  obtain y where y: "WindowAttention_call self b w ctx x = Inr y"
    and shy: "shape y = [B', nat W * nat W, C]" and wfy: "wf_tensor y"
    using WindowAttention_call_ok [of W self b C x B' w ctx] W ws idx tab pr qk nh sh cnt
    unfolding h by blast
  have "WindowAttention_apply self w ctx x = Inr y"
    by (simp add: WindowAttention_apply_def sh b y)
  then show ?thesis using shy wfy unfolding self_def by blast
qed

text \<open>
  Claim C2 says that for a channel count \<open>C\<close> that \<^verbatim>\<open>num_heads\<close> does not divide,
  constructing, building and calling \<^verbatim>\<open>WindowAttention\<close> fails and no output is produced
  from a floored \<open>head_dim\<close>. Nothing in the layer checks divisibility: \<open>build\<close> floors
  \<open>head_dim\<close> and returns (or raises ZeroDivisionError when there are no heads, or when
  \<open>head_dim\<close> floors to 0 and no non-zero \<^verbatim>\<open>qk_scale\<close> is given), and the failure is that
  of the first reshape in \<open>call\<close>, which compares element counts. As amended: on every
  input \<open>[B_, N, C]\<close> with at least one token, \<open>B_ > 0\<close> and \<open>N > 0\<close>, the first call of
  a constructed layer fails, with the reshape error that names both element counts or
  with ZeroDivisionError from \<open>build\<close>.
\<close>

theorem indivisible_channels_fail_on_nonempty_input:
  assumes "C mod nh \<noteq> 0" and "0 < B'" and "0 < N" and "shape x = [B', N, C]"
  shows "WindowAttention_apply (WindowAttention_init (PInt W) nh qb qs ad pd kw) w ctx x
         = Inl (if nh = 0 \<or> (C div nh = 0 \<and> (qs = None \<or> qs = Some 0)) then ZeroDivisionError
                else ReshapeError (B' * N * (C * 3)) (B' * N * 3 * nh * (C div nh)))"
proof -
  define self where "self = WindowAttention_init (PInt W) nh qb qs ad pd kw"
  have h: "num_heads self = nh" by (simp add: self_def WindowAttention_init_def)
  consider (err) "WindowAttention_build self [B', N, C] = Inl ZeroDivisionError"
      "nh = 0 \<or> (C div nh = 0 \<and> (qs = None \<or> qs = Some 0))"
    | (ok) b where "WindowAttention_build self [B', N, C] = Inr b" "units (qkv b) = C * 3"
      "\<not> (nh = 0 \<or> (C div nh = 0 \<and> (qs = None \<or> qs = Some 0)))"
    using WindowAttention_build_cases [of W nh qb qs ad pd kw B' N C] unfolding self_def by blast
  then show ?thesis
  proof cases
    case err
    then show ?thesis
      by (simp add: WindowAttention_apply_def assms(4) self_def [symmetric])
  next
    case ok
    have nh: "0 < nh" using ok(3) by simp
    have lt: "nh * (C div nh) < C"
    proof -
      have "nh * (C div nh) + C mod nh = C" by simp
      then show ?thesis using assms(1) by linarith
    qed
    have ne: "B' * (N * (3 * (nh * (C div nh)))) \<noteq> B' * (N * (C * 3))"
      using lt assms(2,3) by simp
    define y1 where "y1 = tabulate (butlast (shape x) @ [units (qkv b)])
             (\<lambda>idx. sum_list (map (\<lambda>c. tensor_at x (butlast idx @ [c]) * qkv_kernel w c (last idx))
                                 [0..<last (shape x)])
                    + (if use_bias (qkv b) then qkv_bias_vector w (last idx) else 0))"
    have d: "keras_dense (qkv b) (qkv_kernel w) (qkv_bias_vector w) x = Inr y1"
      by (simp add: keras_dense_def assms(4) y1_def)
    have fd: "tf_floordiv C (num_heads self) = Inr (C div nh)"
      using nh by (simp add: tf_floordiv_def h)
    have r: "tf_reshape y1 [int B', int N, 3, int (num_heads self), int (C div nh)]
             = Inl (ReshapeError (B' * N * (C * 3)) (B' * N * 3 * nh * (C div nh)))"
      using tf_reshape_nat [of y1 "[B', N, 3, nh, C div nh]"] ne
      by (simp add: y1_def assms(4) ok(2) h mult.assoc)
    have "WindowAttention_call self b w ctx x
          = Inl (ReshapeError (B' * N * (C * 3)) (B' * N * 3 * nh * (C div nh)))"
      unfolding WindowAttention_call_def assms(4)
      by (simp only: list.case d bind_err_Inr fd r bind_err_Inl)
    then show ?thesis
      using ok by (simp add: WindowAttention_apply_def assms(4) self_def [symmetric])
  qed
qed

theorem indivisible_channels_fail_on_nonempty_input_witness:
  "(10::nat) mod 4 \<noteq> 0 \<and> (0::nat) < 2 \<and> (0::nat) < 9 \<and>
   shape (Tensor [2, 9, 10] (replicate 180 (0::real))) = [2, 9, 10] \<and>
   WindowAttention_apply (WindowAttention_init (PInt 3) 4 True None 0 0 example_kwargs)
     zero_weights inference (Tensor [2, 9, 10] (replicate 180 0))
   = Inl (ReshapeError 540 432)"
proof -
  have a: "(10::nat) mod 4 \<noteq> 0" and b: "(0::nat) < 2" and c: "(0::nat) < 9"
    and d: "shape (Tensor [2, 9, 10] (replicate 180 (0::real))) = [2, 9, 10]"
    by simp_all
  show ?thesis
    using indivisible_channels_fail_on_nonempty_input [OF a b c d, of 3 True None 0 0
        example_kwargs zero_weights inference] a b c d
    by simp
qed

text \<open>
  Claim C2 as stated fails on an empty batch: with 3 channels and 2 heads the input of
  shape \<open>[0, 1, 3]\<close> has no elements, both reshapes agree on the count 0, and the call
  returns an output of shape \<open>[0, 1, 3]\<close>.
\<close>

theorem empty_batch_indivisible_channels:
  "(3::nat) mod 2 \<noteq> 0 \<and>
   map_sum id shape
     (WindowAttention_apply (WindowAttention_init (PInt 1) 2 True None 0 0 example_kwargs)
        zero_weights inference (Tensor [0, 1, 3] []))
   = Inr [0, 1, 3]"
proof -
  obtain y where "WindowAttention_apply (WindowAttention_init (PInt 1) 2 True None 0 0 example_kwargs)
        zero_weights inference (Tensor [0, 1, 3] []) = Inr y" "shape y = [0, nat 1 * nat 1, 3]"
    using WindowAttention_apply_ok [of 1 2 "Tensor [0, 1, 3] []" 0 3 None True 0 0 example_kwargs
        zero_weights inference]
    by auto
  then show ?thesis by simp
qed

section \<open>The global variant\<close>

lemma WindowAttentionGlobal_build_cases:
  "WindowAttentionGlobal_build (WindowAttentionGlobal_init (PInt W) nh qb qs ad pd kw)
     ([B', N, C] # rest)
   = Inl ZeroDivisionError \<and> (nh = 0 \<or> (C div nh = 0 \<and> (qs = None \<or> qs = Some 0)))
   \<or> (\<exists>b. WindowAttentionGlobal_build (WindowAttentionGlobal_init (PInt W) nh qb qs ad pd kw)
              ([B', N, C] # rest) = Inr b \<and>
          WindowAttention_relative_position_index W W = Inr (relative_position_index b) \<and>
          relative_position_bias_table b = [nat ((2 * W - 1) * (2 * W - 1)), nh] \<and>
          units (qkv b) = C * 2 \<and> units (proj b) = C \<and>
          scale b = (case qs of
                       None \<Rightarrow> real (C div nh) powr (- (1 / 2))
                     | Some s \<Rightarrow> if s = 0 then real (C div nh) powr (- (1 / 2)) else s)) \<and>
     \<not> (nh = 0 \<or> (C div nh = 0 \<and> (qs = None \<or> qs = Some 0)))"
proof -
  obtain t where t: "WindowAttention_relative_position_index W W = Inr t"
    using index_spec [of W] by blast
  show ?thesis
    by (auto simp: WindowAttentionGlobal_build_init [OF t] t py_first_def py_last_def
        py_floordiv_def py_or_def py_pow_minus_half_def split: option.splits)
qed

lemma tf_repeat_rank3:
  assumes "shape g = [B, N, C]"
  shows "tf_repeat g r = Inr (tabulate [B * r, N, C] (\<lambda>idx. tensor_at g ((hd idx div r) # tl idx)))"
  by (simp add: tf_repeat_def assms)

text \<open>The query of the global variant, entry by entry.\<close>

lemma WindowAttentionGlobal_query_entries:
  assumes B: "0 < B" and nh: "0 < num_heads self"
    and g: "shape g = [B, N, num_heads self * dh]"
  shows "\<exists>q. WindowAttentionGlobal_query self built (B * nw) N (num_heads self * dh) B g = Inr q \<and>
             shape q = [B * nw, num_heads self, N, dh] \<and> wf_tensor q \<and>
             (\<forall>w<B * nw. \<forall>h<num_heads self. \<forall>n<N. \<forall>d<dh.
                tensor_at q [w, h, n, d] = tensor_at g [w div nw, n, h * dh + d] * scale built)"
proof -
  define H where "H = num_heads self"
  define C where "C = H * dh"
  have Hpos: "0 < H" using nh by (simp add: H_def)
  have fd1: "tf_floordiv (B * nw) B = Inr nw" using B by (simp add: tf_floordiv_def)
  define rep where "rep = tabulate [B * nw, N, C] (\<lambda>idx. tensor_at g ((hd idx div nw) # tl idx))"
  have rp: "tf_repeat g nw = Inr rep"
    unfolding rep_def by (rule tf_repeat_rank3) (simp add: g C_def H_def)
  have fd2: "tf_floordiv C (num_heads self) = Inr dh"
    using Hpos by (simp add: tf_floordiv_def C_def H_def)
  define rs where "rs = Tensor [B * nw, N, H, dh] (elems rep)"
  have r: "tf_reshape rep [int (B * nw), int N, int (num_heads self), int dh] = Inr rs"
    using tf_reshape_nat [of rep "[B * nw, N, H, dh]"]
    by (simp add: rep_def rs_def C_def H_def)
  have shrs: "shape rs = [B * nw, N, H, dh]" by (simp add: rs_def)
  define qt where "qt = tabulate [B * nw, H, N, dh]
                          (\<lambda>idx. tensor_at rs [idx ! 0, idx ! 2, idx ! 1, idx ! 3])"
  have t: "tf_transpose rs [0, 2, 1, 3] = Inr qt"
    unfolding qt_def by (rule transpose_0213 [OF shrs])
  define q where "q = tf_map (\<lambda>x. x * scale built) qt"
  have res: "WindowAttentionGlobal_query self built (B * nw) N (num_heads self * dh) B g = Inr q"
    unfolding WindowAttentionGlobal_query_def C_def [unfolded H_def, symmetric]
    by (simp only: fd1 bind_err_Inr rp fd2 r t q_def)
  have shq: "shape q = [B * nw, H, N, dh]" and wfq: "wf_tensor q"
    by (simp_all add: q_def qt_def)
  have entry: "tensor_at q [w, h, n, d] = tensor_at g [w div nw, n, h * dh + d] * scale built"
    if w: "w < B * nw" and h: "h < H" and n: "n < N" and d: "d < dh" for w h n d
  proof -
    have c: "h * dh + d < C"
    proof -
      have "h * dh + d < Suc h * dh" using d by simp
      also have "\<dots> \<le> H * dh" using h by (intro mult_le_mono1) simp
      finally show ?thesis by (simp add: C_def)
    qed
    have v1: "valid_index (shape qt) [w, h, n, d]" using w h n d by (simp add: qt_def)
    have "tensor_at q [w, h, n, d] = tensor_at qt [w, h, n, d] * scale built"
      unfolding q_def using at_tf_map [of qt "[w, h, n, d]"] v1 by (simp add: qt_def)
    also have "tensor_at qt [w, h, n, d] = tensor_at rs [w, n, h, d]"
      using w h n d by (simp add: qt_def at_tabulate)
    also have "tensor_at rs [w, n, h, d] = tensor_at rep [w, n, h * dh + d]"
      by (simp add: tensor_at_def rs_def rep_def C_def algebra_simps)
    also have "tensor_at rep [w, n, h * dh + d] = tensor_at g [w div nw, n, h * dh + d]"
      using w n c by (simp add: rep_def at_tabulate)
    finally show ?thesis .
  qed
  show ?thesis using res shq wfq entry unfolding H_def by blast
qed

lemma WindowAttentionGlobal_kv_ok:
  assumes nh: "0 < num_heads self"
    and qk: "units (qkv built) = C * 2"
    and sh: "shape inputs = [B', N, C]"
    and cnt: "B' * (N * (C * 2)) = B' * (N * (2 * (num_heads self * (C div num_heads self))))"
  shows "\<exists>k v. WindowAttentionGlobal_kv self built weights inputs = Inr [k, v] \<and>
               shape k = [B', num_heads self, N, C div num_heads self] \<and>
               shape v = [B', num_heads self, N, C div num_heads self]"
proof -
  define h where "h = num_heads self"
  define dh where "dh = C div h"
  define y1 where "y1 = tabulate (butlast (shape inputs) @ [units (qkv built)])
             (\<lambda>idx. sum_list (map (\<lambda>c. tensor_at inputs (butlast idx @ [c]) * qkv_kernel weights c (last idx))
                                 [0..<last (shape inputs)])
                    + (if use_bias (qkv built) then qkv_bias_vector weights (last idx) else 0))"
  have d: "keras_dense (qkv built) (qkv_kernel weights) (qkv_bias_vector weights) inputs = Inr y1"
    by (simp add: keras_dense_def sh y1_def)
  have fd: "tf_floordiv C (num_heads self) = Inr dh"
    using nh by (simp add: tf_floordiv_def dh_def h_def)
  define y2 where "y2 = Tensor [B', N, 2, h, dh] (elems y1)"
  have r: "tf_reshape y1 [int B', int N, 2, int (num_heads self), int dh] = Inr y2"
    using tf_reshape_nat [of y1 "[B', N, 2, h, dh]"] cnt
    by (simp add: y1_def y2_def sh qk h_def dh_def)
  have shy2: "shape y2 = [B', N, 2, h, dh]" by (simp add: y2_def)
  define y3 where "y3 = tabulate [2, B', h, N, dh]
                 (\<lambda>idx. tensor_at y2 [idx ! 1, idx ! 3, idx ! 0, idx ! 2, idx ! 4])"
  have t: "tf_transpose y2 [2, 0, 3, 1, 4] = Inr y3"
    unfolding y3_def by (rule transpose_20314 [OF shy2])
  have "shape y3 = 2 # [B', h, N, dh]" "wf_tensor y3" by (simp_all add: y3_def)
  then obtain k v where u: "tf_unstack y3 = Inr [k, v]"
    and shk: "shape k = [B', h, N, dh]" and shv: "shape v = [B', h, N, dh]"
    using unstack_2 [of y3 "[B', h, N, dh]"] by blast
  have "WindowAttentionGlobal_kv self built weights inputs = Inr [k, v]"
    unfolding WindowAttentionGlobal_kv_def sh
    by (simp only: list.case d bind_err_Inr fd r t u)
  then show ?thesis using shk shv unfolding h_def dh_def by blast
qed

lemma WindowAttentionGlobal_kv_mismatch:
  assumes nh: "0 < num_heads self"
    and qk: "units (qkv built) = C * 2"
    and sh: "shape inputs = [B', N, C]"
    and cnt: "B' * (N * (C * 2)) \<noteq> B' * (N * (2 * (num_heads self * (C div num_heads self))))"
  shows "WindowAttentionGlobal_kv self built weights inputs
         = Inl (ReshapeError (B' * N * (C * 2)) (B' * N * 2 * num_heads self * (C div num_heads self)))"
proof -
  define h where "h = num_heads self"
  define dh where "dh = C div h"
  define y1 where "y1 = tabulate (butlast (shape inputs) @ [units (qkv built)])
             (\<lambda>idx. sum_list (map (\<lambda>c. tensor_at inputs (butlast idx @ [c]) * qkv_kernel weights c (last idx))
                                 [0..<last (shape inputs)])
                    + (if use_bias (qkv built) then qkv_bias_vector weights (last idx) else 0))"
  have d: "keras_dense (qkv built) (qkv_kernel weights) (qkv_bias_vector weights) inputs = Inr y1"
    by (simp add: keras_dense_def sh y1_def)
  have fd: "tf_floordiv C (num_heads self) = Inr dh"
    using nh by (simp add: tf_floordiv_def dh_def h_def)
  have r: "tf_reshape y1 [int B', int N, 2, int (num_heads self), int dh]
           = Inl (ReshapeError (B' * N * (C * 2)) (B' * N * 2 * num_heads self * (C div num_heads self)))"
    using tf_reshape_nat [of y1 "[B', N, 2, h, dh]"] cnt
    by (simp add: y1_def sh qk h_def dh_def mult.assoc)
  show ?thesis
    unfolding WindowAttentionGlobal_kv_def sh
    by (simp only: list.case d bind_err_Inr fd r bind_err_Inl)
qed

text \<open>The global query for a query tensor of any shape: the reshape decides.\<close>

lemma WindowAttentionGlobal_query_any:
  assumes B: "0 < B" and nh: "0 < num_heads self" and g: "shape g = B # rest"
  shows "WindowAttentionGlobal_query self built B' N C B g
         = (if B * (B' div B) * numel rest = B' * N * num_heads self * (C div num_heads self)
            then Inr (tf_map (\<lambda>x. x * scale built)
                   (tabulate [B', num_heads self, N, C div num_heads self]
                      (\<lambda>idx. tensor_at
                         (Tensor [B', N, num_heads self, C div num_heads self]
                            (elems (tabulate ((B * (B' div B)) # rest)
                                      (\<lambda>idx. tensor_at g ((hd idx div (B' div B)) # tl idx)))))
                         [idx ! 0, idx ! 2, idx ! 1, idx ! 3])))
            else Inl (ReshapeError (B * (B' div B) * numel rest)
                        (B' * N * num_heads self * (C div num_heads self))))"
proof -
  define H where "H = num_heads self"
  define dh where "dh = C div H"
  define r where "r = B' div B"
  have fd1: "tf_floordiv B' B = Inr r" using B by (simp add: tf_floordiv_def r_def)
  define rep where "rep = tabulate ((B * r) # rest) (\<lambda>idx. tensor_at g ((hd idx div r) # tl idx))"
  have rp: "tf_repeat g r = Inr rep" by (simp add: tf_repeat_def g rep_def)
  have fd2: "tf_floordiv C (num_heads self) = Inr dh"
    using nh by (simp add: tf_floordiv_def dh_def H_def)
  have len: "length (elems rep) = B * r * numel rest" by (simp add: rep_def)
  show ?thesis
  proof (cases "B * r * numel rest = B' * N * H * dh")
    case True
    define rs where "rs = Tensor [B', N, H, dh] (elems rep)"
    have rsh: "tf_reshape rep [int B', int N, int (num_heads self), int dh] = Inr rs"
      using tf_reshape_nat [of rep "[B', N, H, dh]"] True
      by (simp add: len rs_def H_def mult.assoc)
    have shrs: "shape rs = [B', N, H, dh]" by (simp add: rs_def)
    have t: "tf_transpose rs [0, 2, 1, 3]
             = Inr (tabulate [B', H, N, dh] (\<lambda>idx. tensor_at rs [idx ! 0, idx ! 2, idx ! 1, idx ! 3]))"
      by (rule transpose_0213 [OF shrs])
    have "WindowAttentionGlobal_query self built B' N C B g
          = Inr (tf_map (\<lambda>x. x * scale built)
                  (tabulate [B', H, N, dh] (\<lambda>idx. tensor_at rs [idx ! 0, idx ! 2, idx ! 1, idx ! 3])))"
      unfolding WindowAttentionGlobal_query_def
      by (simp only: fd1 bind_err_Inr rp fd2 rsh t)
    then show ?thesis
      using True by (simp add: rs_def rep_def H_def dh_def r_def)
  next
    case False
    have rsh: "tf_reshape rep [int B', int N, int (num_heads self), int dh]
               = Inl (ReshapeError (B * r * numel rest) (B' * N * H * dh))"
      using tf_reshape_nat [of rep "[B', N, H, dh]"] False
      by (simp add: len H_def mult.assoc)
    have "WindowAttentionGlobal_query self built B' N C B g
          = Inl (ReshapeError (B * r * numel rest) (B' * N * H * dh))"
      unfolding WindowAttentionGlobal_query_def
      by (simp only: fd1 bind_err_Inr rp fd2 rsh bind_err_Inl)
    then show ?thesis
      using False by (simp add: H_def dh_def r_def)
  qed
qed

lemma WindowAttentionGlobal_call_ok:
  assumes W: "1 \<le> W"
    and ws: "window_size self = PTuple [PInt W, PInt W]"
    and idx: "WindowAttention_relative_position_index W W = Inr (relative_position_index built)"
    and tab: "relative_position_bias_table built = [nat ((2 * W - 1) * (2 * W - 1)), num_heads self]"
    and pr: "units (proj built) = C"
    and qk: "units (qkv built) = C * 2"
    and nh: "0 < num_heads self"
    and sh: "shape inputs = [B', N, C]"
    and N: "N = nat W * nat W \<or> W = 1"
    and g: "shape g = B # rest" and B: "0 < B"
    and dv: "num_heads self * (C div num_heads self) = C"
    and cnt: "B * (B' div B) * numel rest = B' * N * C"
  shows "\<exists>y. WindowAttentionGlobal_call self built weights ctx inputs g = Inr y \<and>
             shape y = [B', N, C] \<and> wf_tensor y"
proof -
  define h where "h = num_heads self"
  define dh where "dh = C div h"
  have hd: "h * dh = C" using dv by (simp add: h_def dh_def)
  have pf: "py_first (shape g) = Inr B" by (simp add: py_first_def g)
  have c1: "B' * (N * (C * 2)) = B' * (N * (2 * (num_heads self * (C div num_heads self))))"
    by (simp add: dv)
  obtain k v where kv: "WindowAttentionGlobal_kv self built weights inputs = Inr [k, v]"
    and shk: "shape k = [B', h, N, dh]" and shv: "shape v = [B', h, N, dh]"
    using WindowAttentionGlobal_kv_ok [OF nh qk sh c1] unfolding h_def dh_def by blast
  have c2: "B * (B' div B) * numel rest = B' * N * num_heads self * (C div num_heads self)"
    using cnt by (simp add: mult.assoc dv)
  obtain q where q: "WindowAttentionGlobal_query self built B' N C B g = Inr q"
    and shq: "shape q = [B', h, N, dh]"
    using WindowAttentionGlobal_query_any [OF B nh g, of built B' N C] c2
    by (simp add: h_def dh_def)
  have c3: "B' * (h * dh) = B' * C" by (simp add: hd)
  obtain y where y: "attention_output self built weights ctx B' N C q k v = Inr y"
    and shy: "shape y = [B', N, C]" and wfy: "wf_tensor y"
    using attention_output_ok [OF W ws idx tab [folded h_def] pr N shq shk shv c3] by blast
  have "WindowAttentionGlobal_call self built weights ctx inputs g = Inr y"
    unfolding WindowAttentionGlobal_call_def sh
    by (simp only: list.case pf bind_err_Inr kv q y)
  then show ?thesis using shy wfy by simp
qed

lemma WindowAttentionGlobal_apply_ok:
  assumes W: "1 \<le> W" and nh: "0 < nh"
    and sh: "shape x = [B', N, C]"
    and N: "N = nat W * nat W \<or> W = 1"
    and g: "shape g = B # rest" and B: "0 < B"
    and dv: "nh * (C div nh) = C" and C: "0 < C"
    and cnt: "B * (B' div B) * numel rest = B' * N * C"
  shows "\<exists>y. WindowAttentionGlobal_apply (WindowAttentionGlobal_init (PInt W) nh qb qs ad pd kw)
               w ctx x g = Inr y \<and>
             shape y = [B', N, C] \<and> wf_tensor y"
proof -
  define self where "self = WindowAttentionGlobal_init (PInt W) nh qb qs ad pd kw"
  have "C div nh \<noteq> 0" using dv C by (cases "C div nh = 0") auto
  then have ok: "\<not> (nh = 0 \<or> (C div nh = 0 \<and> (qs = None \<or> qs = Some 0)))"
    using nh by auto
  obtain b where b: "WindowAttentionGlobal_build self [shape x, shape g] = Inr b"
    and idx: "WindowAttention_relative_position_index W W = Inr (relative_position_index b)"
    and tab: "relative_position_bias_table b = [nat ((2 * W - 1) * (2 * W - 1)), nh]"
    and qk: "units (qkv b) = C * 2" and pr: "units (proj b) = C"
    using WindowAttentionGlobal_build_cases [of W nh qb qs ad pd kw B' N C "[shape g]"] ok
    unfolding self_def sh by blast
  have ws: "window_size self = PTuple [PInt W, PInt W]" and h: "num_heads self = nh"
    by (simp_all add: self_def WindowAttentionGlobal_init_def)
  obtain y where y: "WindowAttentionGlobal_call self b w ctx x g = Inr y"
    and shy: "shape y = [B', N, C]" and wfy: "wf_tensor y"
    using WindowAttentionGlobal_call_ok [of W self b C x B' N g B rest w ctx]
      W ws idx tab pr qk nh sh N g B dv cnt
    unfolding h by blast
  have "WindowAttentionGlobal_apply self w ctx x g = Inr y"
    by (simp add: WindowAttentionGlobal_apply_def b y)
  then show ?thesis using shy wfy unfolding self_def by blast
qed

text \<open>
  Claim C4 says that every call of \<^verbatim>\<open>WindowAttentionGlobal\<close> in which \<open>B_\<close> is not a
  multiple of \<open>B\<close> fails with a shape mismatch. The layer never compares \<open>B_\<close> with
  \<open>B\<close>: it repeats the global query \<open>B_ // B\<close> times and reshapes it to
  \<open>[B_, N, num_heads, C // num_heads]\<close>, which fails when the element counts differ, and
  on tensors without elements they never differ. As amended: for a local input
  \<open>[B_, N, C]\<close> that holds at least one element and a global query \<open>[B, N, C]\<close>, with
  \<open>B_\<close> not a multiple of \<open>B\<close>, the first call of a constructed layer fails: with the
  reshape error of the query (or the one of the keys and values when \<open>num_heads\<close> does
  not divide \<open>C\<close>), with the division error of \<open>B_ // B\<close> when \<open>B = 0\<close>, or with
  ZeroDivisionError from \<open>build\<close>.
\<close>

theorem global_batch_mismatch_fails:
  assumes x: "shape x = [B', N, C]" and g: "shape g = [B, N, C]"
    and ne: "0 < numel (shape x)" and nd: "\<not> B dvd B'"
  shows "WindowAttentionGlobal_apply (WindowAttentionGlobal_init (PInt W) nh qb qs ad pd kw) w ctx x g
         = Inl (if nh = 0 \<or> (C div nh = 0 \<and> (qs = None \<or> qs = Some 0)) then ZeroDivisionError
                else if C mod nh \<noteq> 0
                  then ReshapeError (B' * N * (C * 2)) (B' * N * 2 * nh * (C div nh))
                else if B = 0 then InvalidArgumentError
                else ReshapeError (B * (B' div B) * (N * C)) (B' * N * nh * (C div nh)))"
proof -
  define self where "self = WindowAttentionGlobal_init (PInt W) nh qb qs ad pd kw"
  have h: "num_heads self = nh" by (simp add: self_def WindowAttentionGlobal_init_def)
  have B'pos: "0 < B'" using nd by (cases B') auto
  have N: "0 < N" and C: "0 < C" using ne by (simp_all add: x)
  consider (err) "WindowAttentionGlobal_build self [shape x, shape g] = Inl ZeroDivisionError"
      "nh = 0 \<or> (C div nh = 0 \<and> (qs = None \<or> qs = Some 0))"
    | (ok) b where "WindowAttentionGlobal_build self [shape x, shape g] = Inr b"
      "units (qkv b) = C * 2"
      "\<not> (nh = 0 \<or> (C div nh = 0 \<and> (qs = None \<or> qs = Some 0)))"
    using WindowAttentionGlobal_build_cases [of W nh qb qs ad pd kw B' N C "[shape g]"]
    unfolding self_def x by blast
  then show ?thesis
  proof cases
    case err
    then show ?thesis
      by (simp add: WindowAttentionGlobal_apply_def self_def [symmetric])
  next
    case ok
    have nh: "0 < num_heads self" using ok(3) by (simp add: h)
    have pf: "py_first (shape g) = Inr B" by (simp add: py_first_def g)
    show ?thesis
    proof (cases "C mod nh = 0")
      case False
      have lt: "nh * (C div nh) < C"
      proof -
        have "nh * (C div nh) + C mod nh = C" by simp
        then show ?thesis using False by linarith
      qed
      have ne: "B' * (N * (C * 2)) \<noteq> B' * (N * (2 * (num_heads self * (C div num_heads self))))"
        using lt B'pos N by (simp add: h)
      have "WindowAttentionGlobal_kv self b w x
            = Inl (ReshapeError (B' * N * (C * 2)) (B' * N * 2 * nh * (C div nh)))"
        using WindowAttentionGlobal_kv_mismatch [OF nh ok(2) x ne] by (simp add: h)
      then have "WindowAttentionGlobal_call self b w ctx x g
            = Inl (ReshapeError (B' * N * (C * 2)) (B' * N * 2 * nh * (C div nh)))"
        by (simp add: WindowAttentionGlobal_call_def x pf)
      then show ?thesis
        using ok False by (simp add: WindowAttentionGlobal_apply_def self_def [symmetric])
    next
      case True
      have dv: "nh * (C div nh) = C" using True by auto
      have c1: "B' * (N * (C * 2)) = B' * (N * (2 * (num_heads self * (C div num_heads self))))"
        by (simp add: h dv)
      obtain k v where kv: "WindowAttentionGlobal_kv self b w x = Inr [k, v]"
        using WindowAttentionGlobal_kv_ok [OF nh ok(2) x c1] by blast
      show ?thesis
      proof (cases "B = 0")
        case B0: True
        have "WindowAttentionGlobal_query self b B' N C B g = Inl InvalidArgumentError"
          by (simp add: WindowAttentionGlobal_query_def tf_floordiv_def B0)
        then have "WindowAttentionGlobal_call self b w ctx x g = Inl InvalidArgumentError"
          by (simp add: WindowAttentionGlobal_call_def x pf kv)
        then show ?thesis
          using ok True B0 by (simp add: WindowAttentionGlobal_apply_def self_def [symmetric])
      next
        case Bpos: False
        then have B: "0 < B" by simp
        have "B * (B' div B) + B' mod B = B'" by simp
        moreover have "B' mod B \<noteq> 0" using nd by (simp add: dvd_eq_mod_eq_0)
        ultimately have lt: "B * (B' div B) < B'" by linarith
        have "B * (B' div B) * (N * C) < B' * (N * C)"
          using lt N C by simp
        then have ne: "B * (B' div B) * numel [N, C]
                       \<noteq> B' * N * num_heads self * (C div num_heads self)"
          using dv by (simp add: h mult.assoc)
        have "WindowAttentionGlobal_query self b B' N C B g
              = Inl (ReshapeError (B * (B' div B) * (N * C)) (B' * N * nh * (C div nh)))"
          using WindowAttentionGlobal_query_any [OF B nh g, of b B' N C] ne by (simp add: h)
        then have "WindowAttentionGlobal_call self b w ctx x g
              = Inl (ReshapeError (B * (B' div B) * (N * C)) (B' * N * nh * (C div nh)))"
          by (simp add: WindowAttentionGlobal_call_def x pf kv)
        then show ?thesis
          using ok True Bpos by (simp add: WindowAttentionGlobal_apply_def self_def [symmetric])
      qed
    qed
  qed
qed

theorem global_batch_mismatch_fails_witness:
  "shape (Tensor [4, 9, 32] (replicate 1152 (0::real))) = [4, 9, 32] \<and>
   shape (Tensor [3, 9, 32] (replicate 864 (0::real))) = [3, 9, 32] \<and>
   0 < numel (shape (Tensor [4, 9, 32] (replicate 1152 (0::real)))) \<and> \<not> (3::nat) dvd 4 \<and>
   WindowAttentionGlobal_apply (WindowAttentionGlobal_init (PInt 3) 4 True None 0 0 example_kwargs)
     zero_weights inference (Tensor [4, 9, 32] (replicate 1152 0)) (Tensor [3, 9, 32] (replicate 864 0))
   = Inl (ReshapeError 864 1152)"
proof -
  have a: "shape (Tensor [4, 9, 32] (replicate 1152 (0::real))) = [4, 9, 32]"
    and b: "shape (Tensor [3, 9, 32] (replicate 864 (0::real))) = [3, 9, 32]"
    and c: "0 < numel (shape (Tensor [4, 9, 32] (replicate 1152 (0::real))))"
    and e: "\<not> (3::nat) dvd 4"
    by simp_all
  have "WindowAttentionGlobal_apply (WindowAttentionGlobal_init (PInt 3) 4 True None 0 0 example_kwargs)
     zero_weights inference (Tensor [4, 9, 32] (replicate 1152 0)) (Tensor [3, 9, 32] (replicate 864 0))
   = Inl (ReshapeError 864 1152)"
    using global_batch_mismatch_fails [OF a b c e, of 3 4 True None 0 0 example_kwargs
        zero_weights inference]
    by simp
  then show ?thesis using a b c e by (intro conjI)
qed

text \<open>
  Claim C4 as stated fails on empty windows: a local input of shape \<open>[3, 0, 32]\<close> with a
  global query of shape \<open>[2, 0, 32]\<close> (window 1, 4 heads) has \<open>B_ = 3\<close>, \<open>B = 2\<close> and
  the documented shapes, the query is repeated once, both sides of each reshape hold no
  element, and the call returns an output of shape \<open>[3, 0, 32]\<close>.
\<close>

theorem global_batch_mismatch_on_empty_windows:
  "shape (Tensor [3, 0, 32] ([] :: real list)) = [3, 0, 32] \<and>
   shape (Tensor [2, 0, 32] ([] :: real list)) = [2, 0, 32] \<and>
   \<not> (2::nat) dvd 3 \<and>
   map_sum id shape
     (WindowAttentionGlobal_apply (WindowAttentionGlobal_init (PInt 1) 4 True None 0 0 example_kwargs)
        zero_weights inference (Tensor [3, 0, 32] []) (Tensor [2, 0, 32] []))
   = Inr [3, 0, 32]"
proof -
  obtain y where
    "WindowAttentionGlobal_apply (WindowAttentionGlobal_init (PInt 1) 4 True None 0 0 example_kwargs)
        zero_weights inference (Tensor [3, 0, 32] []) (Tensor [2, 0, 32] []) = Inr y"
    "shape y = [3, 0, 32]"
    using WindowAttentionGlobal_apply_ok [of 1 4 "Tensor [3, 0, 32] []" 3 0 32
        "Tensor [2, 0, 32] []" 2 "[0, 32]" True None 0 0 example_kwargs zero_weights inference]
    by auto
  then show ?thesis by simp
qed

text \<open>
  The reshape of the repeated query compares element counts only. Outside the documented
  shapes, a global query of shape \<open>[2, 6, 32]\<close> against a local input of shape
  \<open>[3, 4, 32]\<close> (window 2, 4 heads) is accepted as well: its 384 elements fill
  \<open>[3, 4, 4, 8]\<close>.
\<close>

lemma global_query_of_other_shape_accepted:
  "map_sum id shape
     (WindowAttentionGlobal_apply (WindowAttentionGlobal_init (PInt 2) 4 True None 0 0 example_kwargs)
        zero_weights inference
        (Tensor [3, 4, 32] (replicate 384 0)) (Tensor [2, 6, 32] (replicate 384 0)))
   = Inr [3, 4, 32]"
proof -
  obtain y where
    "WindowAttentionGlobal_apply (WindowAttentionGlobal_init (PInt 2) 4 True None 0 0 example_kwargs)
        zero_weights inference
        (Tensor [3, 4, 32] (replicate 384 0)) (Tensor [2, 6, 32] (replicate 384 0)) = Inr y"
    "shape y = [3, 4, 32]"
    using WindowAttentionGlobal_apply_ok [of 2 4 "Tensor [3, 4, 32] (replicate 384 0)" 3 4 32
        "Tensor [2, 6, 32] (replicate 384 0)" 2 "[6, 32]" True None 0 0 example_kwargs
        zero_weights inference]
    by auto
  then show ?thesis by simp
qed

lemma unstack_2_entries:
  assumes sh: "shape t = 2 # s" and wf: "wf_tensor t"
  shows "\<exists>k v. tf_unstack t = Inr [k, v] \<and> shape k = s \<and> shape v = s \<and>
               (\<forall>idx. valid_index s idx \<longrightarrow>
                  tensor_at k idx = tensor_at t (0 # idx) \<and>
                  tensor_at v idx = tensor_at t (1 # idx))"
proof -
  define m where "m = numel s"
  define k where "k = Tensor s (take m (drop (0 * m) (elems t)))"
  define v where "v = Tensor s (take m (drop (1 * m) (elems t)))"
  have len: "length (elems t) = 2 * m" using wf sh by (simp add: wf_tensor_def m_def)
  have u2: "[0..<2] = [0, 1]" by (simp add: upt_rec numeral_eq_Suc)
  have un: "tf_unstack t = Inr [k, v]"
    by (simp add: tf_unstack_def sh u2 k_def v_def m_def)
  have ent: "tensor_at k idx = tensor_at t (0 # idx) \<and> tensor_at v idx = tensor_at t (1 # idx)"
    if "valid_index s idx" for idx
  proof -
    have r: "ravel s idx < m" using ravel_less [OF that] by (simp add: m_def)
    have "tensor_at k idx = elems t ! ravel s idx"
      using r by (simp add: tensor_at_def k_def)
    moreover have "tensor_at v idx = elems t ! (m + ravel s idx)"
      using r len by (simp add: tensor_at_def v_def)
    moreover have "tensor_at t (0 # idx) = elems t ! ravel s idx"
      by (simp add: tensor_at_def sh)
    moreover have "tensor_at t (1 # idx) = elems t ! (m + ravel s idx)"
      by (simp add: tensor_at_def sh m_def)
    ultimately show ?thesis by simp
  qed
  have "shape k = s" "shape v = s" by (simp_all add: k_def v_def)
  then show ?thesis using un ent by blast
qed

text \<open>The keys and values of the global variant, entry by entry.\<close>

lemma WindowAttentionGlobal_kv_entries:
  assumes nh: "0 < num_heads self"
    and qk: "units (qkv built) = num_heads self * dh * 2"
    and sh: "shape inputs = [B', N, num_heads self * dh]"
  shows "\<exists>k v. WindowAttentionGlobal_kv self built weights inputs = Inr [k, v] \<and>
               shape k = [B', num_heads self, N, dh] \<and>
               shape v = [B', num_heads self, N, dh] \<and>
               (\<forall>i<B'. \<forall>h<num_heads self. \<forall>n<N. \<forall>d<dh.
                  tensor_at k [i, h, n, d]
                    = sum_list (map (\<lambda>c. tensor_at inputs [i, n, c]
                                           * qkv_kernel weights c (h * dh + d))
                                    [0..<num_heads self * dh])
                      + (if use_bias (qkv built)
                         then qkv_bias_vector weights (h * dh + d) else 0) \<and>
                  tensor_at v [i, h, n, d]
                    = sum_list (map (\<lambda>c. tensor_at inputs [i, n, c]
                                           * qkv_kernel weights c (num_heads self * dh + h * dh + d))
                                    [0..<num_heads self * dh])
                      + (if use_bias (qkv built)
                         then qkv_bias_vector weights (num_heads self * dh + h * dh + d) else 0))"
proof -
  define H where "H = num_heads self"
  define C where "C = H * dh"
  have Hpos: "0 < H" using nh by (simp add: H_def)
  have shC: "shape inputs = [B', N, C]" by (simp add: sh C_def H_def)
  define f where "f = (\<lambda>idx. sum_list (map (\<lambda>c. tensor_at inputs (butlast idx @ [c])
                                                * qkv_kernel weights c (last idx))
                                 [0..<last (shape inputs)])
                    + (if use_bias (qkv built) then qkv_bias_vector weights (last idx) else 0))"
  define y1 where "y1 = tabulate (butlast (shape inputs) @ [units (qkv built)]) f"
  have d: "keras_dense (qkv built) (qkv_kernel weights) (qkv_bias_vector weights) inputs = Inr y1"
    by (simp add: keras_dense_def sh y1_def f_def)
  have shy1: "shape y1 = [B', N, C * 2]" by (simp add: y1_def shC qk C_def H_def)
  have y1_at: "tensor_at y1 [i, n, u]
               = sum_list (map (\<lambda>c. tensor_at inputs [i, n, c] * qkv_kernel weights c u) [0..<C])
                 + (if use_bias (qkv built) then qkv_bias_vector weights u else 0)"
    if "i < B'" "n < N" "u < C * 2" for i n u
  proof -
    have "valid_index (butlast (shape inputs) @ [units (qkv built)]) [i, n, u]"
      using that by (simp add: shC qk C_def H_def)
    then have "tensor_at y1 [i, n, u] = f [i, n, u]"
      unfolding y1_def by (rule at_tabulate)
    then show ?thesis by (simp add: f_def shC)
  qed
  have fd: "tf_floordiv (num_heads self * dh) (num_heads self) = Inr dh"
    using nh by (simp add: tf_floordiv_def)
  define y2 where "y2 = Tensor [B', N, 2, H, dh] (elems y1)"
  have r: "tf_reshape y1 [int B', int N, 2, int (num_heads self), int dh] = Inr y2"
    using tf_reshape_nat [of y1 "[B', N, 2, H, dh]"]
    by (simp add: y1_def y2_def shC qk C_def H_def)
  have shy2: "shape y2 = [B', N, 2, H, dh]" by (simp add: y2_def)
  have y2_at: "tensor_at y2 [i, n, p, h, d] = tensor_at y1 [i, n, p * C + h * dh + d]" for i n p h d
  proof -
    have e: "i * (N * (2 * (H * dh))) + (n * (2 * (H * dh)) + (p * (H * dh) + (h * dh + d)))
          = i * (N * (H * dh * 2)) + (n * (H * dh * 2) + (p * (H * dh) + h * dh + d))"
      by (simp add: mult.commute mult.left_commute)
    show ?thesis
      by (simp add: tensor_at_def y2_def shy1 C_def e)
  qed
  define y3 where "y3 = tabulate [2, B', H, N, dh]
                 (\<lambda>idx. tensor_at y2 [idx ! 1, idx ! 3, idx ! 0, idx ! 2, idx ! 4])"
  have t: "tf_transpose y2 [2, 0, 3, 1, 4] = Inr y3"
    unfolding y3_def by (rule transpose_20314 [OF shy2])
  have y3_at: "tensor_at y3 [p, i, h, n, d] = tensor_at y2 [i, n, p, h, d]"
    if "p < 2" "i < B'" "h < H" "n < N" "d < dh" for p i h n d
    using that by (simp add: y3_def at_tabulate)
  have "shape y3 = 2 # [B', H, N, dh]" "wf_tensor y3" by (simp_all add: y3_def)
  then obtain k v where u: "tf_unstack y3 = Inr [k, v]"
    and shk: "shape k = [B', H, N, dh]" and shv: "shape v = [B', H, N, dh]"
    and parts: "\<forall>idx. valid_index [B', H, N, dh] idx \<longrightarrow>
                  tensor_at k idx = tensor_at y3 (0 # idx) \<and>
                  tensor_at v idx = tensor_at y3 (1 # idx)"
    using unstack_2_entries [of y3 "[B', H, N, dh]"] by blast
  have res: "WindowAttentionGlobal_kv self built weights inputs = Inr [k, v]"
    unfolding WindowAttentionGlobal_kv_def sh
    by (simp only: list.case d bind_err_Inr fd r t u)
  have ent: "tensor_at k [i, h, n, d]
               = sum_list (map (\<lambda>c. tensor_at inputs [i, n, c] * qkv_kernel weights c (h * dh + d))
                   [0..<C])
                 + (if use_bias (qkv built) then qkv_bias_vector weights (h * dh + d) else 0) \<and>
             tensor_at v [i, h, n, d]
               = sum_list (map (\<lambda>c. tensor_at inputs [i, n, c]
                                      * qkv_kernel weights c (C + h * dh + d)) [0..<C])
                 + (if use_bias (qkv built) then qkv_bias_vector weights (C + h * dh + d) else 0)"
    if i: "i < B'" and h: "h < H" and n: "n < N" and dd: "d < dh" for i h n d
  proof -
    have c: "h * dh + d < C"
    proof -
      have "h * dh + d < Suc h * dh" using dd by simp
      also have "\<dots> \<le> H * dh" using h by (intro mult_le_mono1) simp
      finally show ?thesis by (simp add: C_def)
    qed
    have v: "valid_index [B', H, N, dh] [i, h, n, d]" using i h n dd by simp
    have "tensor_at k [i, h, n, d] = tensor_at y3 [0, i, h, n, d]"
      using parts [rule_format, OF v] by simp
    also have "\<dots> = tensor_at y2 [i, n, 0, h, d]" using y3_at [of 0 i h n d] i h n dd by simp
    also have "\<dots> = tensor_at y1 [i, n, h * dh + d]" using y2_at [of i n 0 h d] by simp
    finally have k_eq: "tensor_at k [i, h, n, d] = tensor_at y1 [i, n, h * dh + d]" .
    have "tensor_at v [i, h, n, d] = tensor_at y3 [1, i, h, n, d]"
      using parts [rule_format, OF v] by simp
    also have "\<dots> = tensor_at y2 [i, n, 1, h, d]" using y3_at [of 1 i h n d] i h n dd by simp
    also have "\<dots> = tensor_at y1 [i, n, C + h * dh + d]" using y2_at [of i n 1 h d] by simp
    finally have v_eq: "tensor_at v [i, h, n, d] = tensor_at y1 [i, n, C + h * dh + d]" .
    show ?thesis
      unfolding k_eq v_eq using y1_at [OF i n, of "h * dh + d"] y1_at [OF i n, of "C + h * dh + d"] c
      by simp
  qed
  show ?thesis
    using res shk shv ent unfolding H_def C_def by blast
qed

text \<open>The attention logits of line 56 and 140, entry by entry.\<close>

lemma attention_logits_entries:
  assumes q: "shape q = [p, h, n, d]" and k: "shape k = [p, h, m, d]"
  shows "\<exists>attn. attention_logits q k = Inr attn \<and> shape attn = [p, h, n, m] \<and>
           (\<forall>i<p. \<forall>j<h. \<forall>a<n. \<forall>c<m.
              tensor_at attn [i, j, a, c]
                = sum_list (map (\<lambda>e. tensor_at q [i, j, a, e] * tensor_at k [i, j, c, e])
                                [0..<d]))"
proof -
  define kT where
    "kT = tabulate [p, h, d, m] (\<lambda>idx. tensor_at k [idx ! 0, idx ! 1, idx ! 3, idx ! 2])"
  define attn where
    "attn = tabulate [p, h, n, m]
              (\<lambda>idx. sum_list (map (\<lambda>e. tensor_at q (take 2 idx @ [idx ! 2, e])
                                          * tensor_at kT (take 2 idx @ [e, idx ! 3]))
                                    [0..<d]))"
  have t: "tf_transpose k [0, 1, 3, 2] = Inr kT"
    unfolding kT_def by (rule transpose_0132 [OF k])
  have shkT: "shape kT = [p, h, d, m]" by (simp add: kT_def)
  have m: "tf_matmul q kT = Inr attn"
    by (simp add: tf_matmul_def q shkT attn_def Let_def numeral_2_eq_2 numeral_3_eq_3)
  have l: "attention_logits q k = Inr attn"
    unfolding attention_logits_def by (simp only: t bind_err_Inr m)
  have sh: "shape attn = [p, h, n, m]" by (simp add: attn_def)
  have at: "tensor_at attn [i, j, a, c]
            = sum_list (map (\<lambda>e. tensor_at q [i, j, a, e] * tensor_at k [i, j, c, e]) [0..<d])"
    if "i < p" "j < h" "a < n" "c < m" for i j a c
  proof -
    have "tensor_at attn [i, j, a, c]
          = sum_list (map (\<lambda>e. tensor_at q [i, j, a, e] * tensor_at kT [i, j, e, c]) [0..<d])"
      unfolding attn_def using that
      by (subst at_tabulate) (simp_all add: numeral_2_eq_2 numeral_3_eq_3)
    also have "\<dots> = sum_list (map (\<lambda>e. tensor_at q [i, j, a, e] * tensor_at k [i, j, c, e])
                               [0..<d])"
    proof (rule sum_list_map_cong)
      fix e assume "e < d"
      then have "tensor_at kT [i, j, e, c] = tensor_at k [i, j, c, e]"
        unfolding kT_def using that
        by (subst at_tabulate) (simp_all add: numeral_2_eq_2 numeral_3_eq_3)
      then show "tensor_at q [i, j, a, e] * tensor_at kT [i, j, e, c]
                 = tensor_at q [i, j, a, e] * tensor_at k [i, j, c, e]" by simp
    qed
    finally show ?thesis .
  qed
  show ?thesis using l sh at by blast
qed

lemma WindowAttentionGlobal_build_qkv:
  assumes "WindowAttentionGlobal_build (WindowAttentionGlobal_init (PInt W) nh qb qs ad pd kw)
             ([B', N, C] # rest) = Inr b"
  shows "qkv b = \<lparr>units = C * 2, use_bias = qb\<rparr>"
proof -
  obtain t where t: "WindowAttention_relative_position_index W W = Inr t"
    using index_spec [of W] by blast
  show ?thesis
    using assms
    by (auto simp: WindowAttentionGlobal_build_init [OF t] py_first_def py_last_def
        py_floordiv_def bind_err_def split: if_splits sum.splits)
qed

text \<open>
  Claim C5. For a local input \<open>[B * nw, N, C]\<close> and a global query \<open>[B, N, C]\<close> with
  \<open>C = num_heads * head_dim\<close>, \<open>B > 0\<close>: \<open>build\<close> creates the key and value projection
  with \<open>2C\<close> units and the attention scale; the keys and values are that dense projection
  of the local input, unit \<open>h * head_dim + d\<close> for the key and unit
  \<open>C + h * head_dim + d\<close> for the value of head \<open>h\<close>; the repeated query holds at window
  \<open>i\<close> exactly the global query of image \<open>i div nw\<close>; the query is that tensor split into
  heads and multiplied by the attention scale, so all windows of one image carry the
  same query; the attention logits of window \<open>i\<close> are the products of the scaled global
  query of image \<open>i div nw\<close> with the keys of window \<open>i\<close>; and \<open>call\<close> returns what the rest
  of the attention computes from exactly these logits and these values.
\<close>

theorem global_query_is_replicated:
  assumes B: "0 < B" and nh: "0 < nh" and dh: "0 < dh"
    and x: "shape x = [B * nw, N, nh * dh]" and g: "shape g = [B, N, nh * dh]"
  shows "\<exists>b rep q k v attn.
           WindowAttentionGlobal_build (WindowAttentionGlobal_init (PInt W) nh qb qs ad pd kw)
             [shape x, shape g] = Inr b \<and>
           qkv b = \<lparr>units = 2 * (nh * dh), use_bias = qb\<rparr> \<and>
           scale b = (case qs of
                        None \<Rightarrow> real dh powr (- (1 / 2))
                      | Some s \<Rightarrow> if s = 0 then real dh powr (- (1 / 2)) else s) \<and>
           WindowAttentionGlobal_kv (WindowAttentionGlobal_init (PInt W) nh qb qs ad pd kw) b w x
             = Inr [k, v] \<and>
           shape k = [B * nw, nh, N, dh] \<and> shape v = [B * nw, nh, N, dh] \<and>
           (\<forall>i<B * nw. \<forall>h<nh. \<forall>n<N. \<forall>d<dh.
              tensor_at k [i, h, n, d]
                = sum_list (map (\<lambda>c. tensor_at x [i, n, c] * qkv_kernel w c (h * dh + d))
                                [0..<nh * dh])
                  + (if qb then qkv_bias_vector w (h * dh + d) else 0) \<and>
              tensor_at v [i, h, n, d]
                = sum_list (map (\<lambda>c. tensor_at x [i, n, c]
                                       * qkv_kernel w c (nh * dh + h * dh + d))
                                [0..<nh * dh])
                  + (if qb then qkv_bias_vector w (nh * dh + h * dh + d) else 0)) \<and>
           tf_repeat g (B * nw div B) = Inr rep \<and> shape rep = [B * nw, N, nh * dh] \<and>
           (\<forall>i<B * nw. \<forall>n<N. \<forall>c<nh * dh.
              tensor_at rep [i, n, c] = tensor_at g [i div nw, n, c]) \<and>
           WindowAttentionGlobal_query (WindowAttentionGlobal_init (PInt W) nh qb qs ad pd kw) b
             (B * nw) N (nh * dh) B g = Inr q \<and>
           shape q = [B * nw, nh, N, dh] \<and>
           (\<forall>i<B * nw. \<forall>h<nh. \<forall>n<N. \<forall>d<dh.
              tensor_at q [i, h, n, d] = tensor_at g [i div nw, n, h * dh + d] * scale b) \<and>
           (\<forall>i<B * nw. \<forall>j<B * nw. \<forall>h<nh. \<forall>n<N. \<forall>d<dh.
              i div nw = j div nw \<longrightarrow> tensor_at q [i, h, n, d] = tensor_at q [j, h, n, d]) \<and>
           attention_logits q k = Inr attn \<and> shape attn = [B * nw, nh, N, N] \<and>
           (\<forall>i<B * nw. \<forall>h<nh. \<forall>n<N. \<forall>m<N.
              tensor_at attn [i, h, n, m]
                = sum_list (map (\<lambda>d. tensor_at g [i div nw, n, h * dh + d] * scale b
                                       * tensor_at k [i, h, m, d])
                                [0..<dh])) \<and>
           WindowAttentionGlobal_call (WindowAttentionGlobal_init (PInt W) nh qb qs ad pd kw) b
             w ctx x g
             = attention_from_logits (WindowAttentionGlobal_init (PInt W) nh qb qs ad pd kw) b
                 w ctx (B * nw) N (nh * dh) attn v \<and>
           WindowAttentionGlobal_apply (WindowAttentionGlobal_init (PInt W) nh qb qs ad pd kw)
             w ctx x g
             = attention_from_logits (WindowAttentionGlobal_init (PInt W) nh qb qs ad pd kw) b
                 w ctx (B * nw) N (nh * dh) attn v"
proof -
  define self where "self = WindowAttentionGlobal_init (PInt W) nh qb qs ad pd kw"
  define C where "C = nh * dh"
  have h: "num_heads self = nh" by (simp add: self_def WindowAttentionGlobal_init_def)
  have dv: "C div nh = dh" using nh by (simp add: C_def)
  have ok: "\<not> (nh = 0 \<or> (C div nh = 0 \<and> (qs = None \<or> qs = Some 0)))"
    using nh dh dv by simp
  obtain b where b: "WindowAttentionGlobal_build self [shape x, shape g] = Inr b"
    and sc0: "scale b = (case qs of
                           None \<Rightarrow> real (C div nh) powr (- (1 / 2))
                         | Some s \<Rightarrow> if s = 0 then real (C div nh) powr (- (1 / 2)) else s)"
    using WindowAttentionGlobal_build_cases [of W nh qb qs ad pd kw "B * nw" N C "[shape g]"] ok
    unfolding self_def x C_def by blast
  have sc: "scale b = (case qs of
                         None \<Rightarrow> real dh powr (- (1 / 2))
                       | Some s \<Rightarrow> if s = 0 then real dh powr (- (1 / 2)) else s)"
    using sc0 by (simp only: dv)
  have qkvb: "qkv b = \<lparr>units = 2 * C, use_bias = qb\<rparr>"
    using WindowAttentionGlobal_build_qkv [OF b [unfolded self_def x]] by (simp add: C_def)
  have qk: "units (qkv b) = num_heads self * dh * 2" and ub: "use_bias (qkv b) = qb"
    by (simp_all add: qkvb h C_def)
  have nh': "0 < num_heads self" using nh by (simp add: h)
  obtain k v where kv: "WindowAttentionGlobal_kv self b w x = Inr [k, v]"
    and shk: "shape k = [B * nw, num_heads self, N, dh]"
    and shv: "shape v = [B * nw, num_heads self, N, dh]"
    and kv_at: "\<forall>i<B * nw. \<forall>h<num_heads self. \<forall>n<N. \<forall>d<dh.
                  tensor_at k [i, h, n, d]
                    = sum_list (map (\<lambda>c. tensor_at x [i, n, c] * qkv_kernel w c (h * dh + d))
                                    [0..<num_heads self * dh])
                      + (if use_bias (qkv b) then qkv_bias_vector w (h * dh + d) else 0) \<and>
                  tensor_at v [i, h, n, d]
                    = sum_list (map (\<lambda>c. tensor_at x [i, n, c]
                                           * qkv_kernel w c (num_heads self * dh + h * dh + d))
                                    [0..<num_heads self * dh])
                      + (if use_bias (qkv b)
                         then qkv_bias_vector w (num_heads self * dh + h * dh + d) else 0)"
    using WindowAttentionGlobal_kv_entries [OF nh' qk x [folded h], of w] by blast
  have shk': "shape k = [B * nw, nh, N, dh]" and shv': "shape v = [B * nw, nh, N, dh]"
    using shk shv by (simp_all only: h)
  have kv_at': "\<forall>i<B * nw. \<forall>h<nh. \<forall>n<N. \<forall>d<dh.
              tensor_at k [i, h, n, d]
                = sum_list (map (\<lambda>c. tensor_at x [i, n, c] * qkv_kernel w c (h * dh + d))
                                [0..<C])
                  + (if qb then qkv_bias_vector w (h * dh + d) else 0) \<and>
              tensor_at v [i, h, n, d]
                = sum_list (map (\<lambda>c. tensor_at x [i, n, c] * qkv_kernel w c (C + h * dh + d))
                                [0..<C])
                  + (if qb then qkv_bias_vector w (C + h * dh + d) else 0)"
    using kv_at by (simp only: h ub C_def)
  define rep where "rep = tabulate [B * nw, N, C] (\<lambda>idx. tensor_at g ((hd idx div nw) # tl idx))"
  have rp: "tf_repeat g (B * nw div B) = Inr rep"
    using tf_repeat_rank3 [OF g [folded C_def], of nw] B by (simp add: rep_def)
  have shrep: "shape rep = [B * nw, N, C]" by (simp add: rep_def)
  have rep_at: "\<forall>i<B * nw. \<forall>n<N. \<forall>c<C. tensor_at rep [i, n, c] = tensor_at g [i div nw, n, c]"
    by (simp add: rep_def at_tabulate)
  obtain q where q: "WindowAttentionGlobal_query self b (B * nw) N (num_heads self * dh) B g = Inr q"
    and shq: "shape q = [B * nw, num_heads self, N, dh]"
    and q_at: "\<forall>i<B * nw. \<forall>h<num_heads self. \<forall>n<N. \<forall>d<dh.
                tensor_at q [i, h, n, d] = tensor_at g [i div nw, n, h * dh + d] * scale b"
    using WindowAttentionGlobal_query_entries [OF B nh' g [folded h], of b nw] by blast
  have q': "WindowAttentionGlobal_query self b (B * nw) N C B g = Inr q"
    using q by (simp only: h C_def)
  have shq': "shape q = [B * nw, nh, N, dh]" using shq by (simp only: h)
  have q_at': "\<forall>i<B * nw. \<forall>h<nh. \<forall>n<N. \<forall>d<dh.
                tensor_at q [i, h, n, d] = tensor_at g [i div nw, n, h * dh + d] * scale b"
    using q_at by (simp only: h)
  have same: "\<forall>i<B * nw. \<forall>j<B * nw. \<forall>h<nh. \<forall>n<N. \<forall>d<dh.
              i div nw = j div nw \<longrightarrow> tensor_at q [i, h, n, d] = tensor_at q [j, h, n, d]"
    using q_at' by simp
  obtain attn where lg: "attention_logits q k = Inr attn"
    and sha: "shape attn = [B * nw, nh, N, N]"
    and attn_q: "\<forall>i<B * nw. \<forall>h<nh. \<forall>n<N. \<forall>m<N.
                   tensor_at attn [i, h, n, m]
                     = sum_list (map (\<lambda>d. tensor_at q [i, h, n, d] * tensor_at k [i, h, m, d])
                                     [0..<dh])"
    using attention_logits_entries [OF shq' shk'] by blast
  have attn_at: "\<forall>i<B * nw. \<forall>h<nh. \<forall>n<N. \<forall>m<N.
                   tensor_at attn [i, h, n, m]
                     = sum_list (map (\<lambda>d. tensor_at g [i div nw, n, h * dh + d] * scale b
                                            * tensor_at k [i, h, m, d])
                                     [0..<dh])"
  proof (intro allI impI)
    fix i h n m assume i: "i < B * nw" and hh: "h < nh" and n: "n < N" and m: "m < N"
    have "tensor_at attn [i, h, n, m]
          = sum_list (map (\<lambda>d. tensor_at q [i, h, n, d] * tensor_at k [i, h, m, d]) [0..<dh])"
      using attn_q i hh n m by blast
    also have "\<dots> = sum_list (map (\<lambda>d. tensor_at g [i div nw, n, h * dh + d] * scale b
                                          * tensor_at k [i, h, m, d])
                                   [0..<dh])"
    proof (rule sum_list_map_cong)
      fix d assume "d < dh"
      then have "tensor_at q [i, h, n, d] = tensor_at g [i div nw, n, h * dh + d] * scale b"
        using q_at' i hh n by blast
      then show "tensor_at q [i, h, n, d] * tensor_at k [i, h, m, d]
                 = tensor_at g [i div nw, n, h * dh + d] * scale b * tensor_at k [i, h, m, d]"
        by simp
    qed
    finally show "tensor_at attn [i, h, n, m]
                  = sum_list (map (\<lambda>d. tensor_at g [i div nw, n, h * dh + d] * scale b
                                         * tensor_at k [i, h, m, d])
                                  [0..<dh])" .
  qed
  have pf: "py_first (shape g) = Inr B" by (simp add: py_first_def g)
  have xC: "shape x = [B * nw, N, C]" by (simp add: x C_def)
  have call: "WindowAttentionGlobal_call self b w ctx x g
              = attention_from_logits self b w ctx (B * nw) N C attn v"
    unfolding WindowAttentionGlobal_call_def xC attention_output_def
    by (simp only: list.case pf bind_err_Inr kv q' lg)
  have app: "WindowAttentionGlobal_apply self w ctx x g
              = attention_from_logits self b w ctx (B * nw) N C attn v"
    unfolding WindowAttentionGlobal_apply_def by (simp only: b bind_err_Inr call)
  have "WindowAttentionGlobal_build self [shape x, shape g] = Inr b \<and>
        qkv b = \<lparr>units = 2 * C, use_bias = qb\<rparr> \<and>
        scale b = (case qs of
                     None \<Rightarrow> real dh powr (- (1 / 2))
                   | Some s \<Rightarrow> if s = 0 then real dh powr (- (1 / 2)) else s) \<and>
        WindowAttentionGlobal_kv self b w x = Inr [k, v] \<and>
        shape k = [B * nw, nh, N, dh] \<and> shape v = [B * nw, nh, N, dh] \<and>
        (\<forall>i<B * nw. \<forall>h<nh. \<forall>n<N. \<forall>d<dh.
              tensor_at k [i, h, n, d]
                = sum_list (map (\<lambda>c. tensor_at x [i, n, c] * qkv_kernel w c (h * dh + d))
                                [0..<C])
                  + (if qb then qkv_bias_vector w (h * dh + d) else 0) \<and>
              tensor_at v [i, h, n, d]
                = sum_list (map (\<lambda>c. tensor_at x [i, n, c] * qkv_kernel w c (C + h * dh + d))
                                [0..<C])
                  + (if qb then qkv_bias_vector w (C + h * dh + d) else 0)) \<and>
        tf_repeat g (B * nw div B) = Inr rep \<and> shape rep = [B * nw, N, C] \<and>
        (\<forall>i<B * nw. \<forall>n<N. \<forall>c<C. tensor_at rep [i, n, c] = tensor_at g [i div nw, n, c]) \<and>
        WindowAttentionGlobal_query self b (B * nw) N C B g = Inr q \<and>
        shape q = [B * nw, nh, N, dh] \<and>
        (\<forall>i<B * nw. \<forall>h<nh. \<forall>n<N. \<forall>d<dh.
           tensor_at q [i, h, n, d] = tensor_at g [i div nw, n, h * dh + d] * scale b) \<and>
        (\<forall>i<B * nw. \<forall>j<B * nw. \<forall>h<nh. \<forall>n<N. \<forall>d<dh.
           i div nw = j div nw \<longrightarrow> tensor_at q [i, h, n, d] = tensor_at q [j, h, n, d]) \<and>
        attention_logits q k = Inr attn \<and> shape attn = [B * nw, nh, N, N] \<and>
        (\<forall>i<B * nw. \<forall>h<nh. \<forall>n<N. \<forall>m<N.
           tensor_at attn [i, h, n, m]
             = sum_list (map (\<lambda>d. tensor_at g [i div nw, n, h * dh + d] * scale b
                                    * tensor_at k [i, h, m, d])
                             [0..<dh])) \<and>
        WindowAttentionGlobal_call self b w ctx x g
          = attention_from_logits self b w ctx (B * nw) N C attn v \<and>
        WindowAttentionGlobal_apply self w ctx x g
          = attention_from_logits self b w ctx (B * nw) N C attn v"
    by (intro conjI)
       (fact b qkvb sc kv shk' shv' kv_at' rp shrep rep_at q' shq' q_at' same lg sha attn_at
          call app)+
  then show ?thesis unfolding self_def C_def by (intro exI)
qed

theorem global_query_is_replicated_witness:
  "(0::nat) < 2 \<and> (0::nat) < 2 \<and> (0::nat) < 1 \<and>
   shape (Tensor [4, 1, 2] [1, 2, 3, 4, 5, 6, 7, 8 :: real]) = [2 * 2, 1, 2 * 1] \<and>
   shape (Tensor [2, 1, 2] [1, 2, 3, 4 :: real]) = [2, 1, 2 * 1] \<and>
   (\<exists>b rep q k v attn.
      WindowAttentionGlobal_build (WindowAttentionGlobal_init (PInt 1) 2 True (Some 2) 0 0 example_kwargs)
        [[4, 1, 2], [2, 1, 2]] = Inr b \<and>
      qkv b = \<lparr>units = 4, use_bias = True\<rparr> \<and> scale b = 2 \<and>
      WindowAttentionGlobal_kv (WindowAttentionGlobal_init (PInt 1) 2 True (Some 2) 0 0 example_kwargs)
        b unit_weights (Tensor [4, 1, 2] [1, 2, 3, 4, 5, 6, 7, 8]) = Inr [k, v] \<and>
      tensor_at k [2, 1, 0, 0] = 11 \<and> tensor_at k [3, 1, 0, 0] = 15 \<and>
      tensor_at v [3, 0, 0, 0] = 15 \<and>
      tf_repeat (Tensor [2, 1, 2] [1, 2, 3, 4 :: real]) (4 div 2) = Inr rep \<and>
      tensor_at rep [2, 0, 1] = 4 \<and> tensor_at rep [3, 0, 1] = 4 \<and>
      WindowAttentionGlobal_query (WindowAttentionGlobal_init (PInt 1) 2 True (Some 2) 0 0 example_kwargs)
        b 4 1 2 2 (Tensor [2, 1, 2] [1, 2, 3, 4]) = Inr q \<and>
      tensor_at q [3, 1, 0, 0] = 8 \<and>
      tensor_at q [2, 1, 0, 0] = tensor_at q [3, 1, 0, 0] \<and>
      attention_logits q k = Inr attn \<and> shape attn = [4, 2, 1, 1] \<and>
      tensor_at attn [2, 1, 0, 0] = 88 \<and> tensor_at attn [3, 1, 0, 0] = 120 \<and>
      WindowAttentionGlobal_apply
        (WindowAttentionGlobal_init (PInt 1) 2 True (Some 2) 0 0 example_kwargs)
        unit_weights inference (Tensor [4, 1, 2] [1, 2, 3, 4, 5, 6, 7, 8]) (Tensor [2, 1, 2] [1, 2, 3, 4])
      = attention_from_logits
          (WindowAttentionGlobal_init (PInt 1) 2 True (Some 2) 0 0 example_kwargs)
          b unit_weights inference 4 1 2 attn v)"
proof -
  define x where "x = Tensor [4, 1, 2] [1, 2, 3, 4, 5, 6, 7, 8 :: real]"
  define g where "g = Tensor [2, 1, 2] [1, 2, 3, 4 :: real]"
  define self where
    "self = WindowAttentionGlobal_init (PInt 1) 2 True (Some 2) 0 0 example_kwargs"
  have a: "(0::nat) < 2" and c: "(0::nat) < 1"
    and sx: "shape x = [2 * 2, 1, 2 * 1]" and sg: "shape g = [2, 1, 2 * 1]"
    by (simp_all add: x_def g_def)
  from global_query_is_replicated [OF a a c sx sg, of 1 True "Some 2" 0 0 example_kwargs
      unit_weights inference]
  obtain b rep q k v attn where
    b: "WindowAttentionGlobal_build self [shape x, shape g] = Inr b"
    and qk: "qkv b = \<lparr>units = 2 * (2 * 1), use_bias = True\<rparr>"
    and sc: "scale b = (case Some (2::real) of
                          None \<Rightarrow> real 1 powr (- (1 / 2))
                        | Some s \<Rightarrow> if s = 0 then real 1 powr (- (1 / 2)) else s)"
    and kv: "WindowAttentionGlobal_kv self b unit_weights x = Inr [k, v]"
    and kv_at: "\<forall>i<2 * 2. \<forall>h<2. \<forall>n<1. \<forall>d<1.
              tensor_at k [i, h, n, d]
                = sum_list (map (\<lambda>c. tensor_at x [i, n, c] * qkv_kernel unit_weights c (h * 1 + d))
                                [0..<2 * 1])
                  + (if True then qkv_bias_vector unit_weights (h * 1 + d) else 0) \<and>
              tensor_at v [i, h, n, d]
                = sum_list (map (\<lambda>c. tensor_at x [i, n, c]
                                       * qkv_kernel unit_weights c (2 * 1 + h * 1 + d))
                                [0..<2 * 1])
                  + (if True then qkv_bias_vector unit_weights (2 * 1 + h * 1 + d) else 0)"
    and rp: "tf_repeat g (2 * 2 div 2) = Inr rep"
    and rep_at: "\<forall>i<2 * 2. \<forall>n<1. \<forall>c<2 * 1. tensor_at rep [i, n, c] = tensor_at g [i div 2, n, c]"
    and q: "WindowAttentionGlobal_query self b (2 * 2) 1 (2 * 1) 2 g = Inr q"
    and q_at: "\<forall>i<2 * 2. \<forall>h<2. \<forall>n<1. \<forall>d<1.
                 tensor_at q [i, h, n, d] = tensor_at g [i div 2, n, h * 1 + d] * scale b"
    and same: "\<forall>i<2 * 2. \<forall>j<2 * 2. \<forall>h<2. \<forall>n<1. \<forall>d<1.
                 i div 2 = j div 2 \<longrightarrow> tensor_at q [i, h, n, d] = tensor_at q [j, h, n, d]"
    and lg: "attention_logits q k = Inr attn"
    and sha: "shape attn = [2 * 2, 2, 1, 1]"
    and attn_at: "\<forall>i<2 * 2. \<forall>h<2. \<forall>n<1. \<forall>m<1.
                    tensor_at attn [i, h, n, m]
                      = sum_list (map (\<lambda>d. tensor_at g [i div 2, n, h * 1 + d] * scale b
                                             * tensor_at k [i, h, m, d])
                                      [0..<1])"
    and app: "WindowAttentionGlobal_apply self unit_weights inference x g
              = attention_from_logits self b unit_weights inference (2 * 2) 1 (2 * 1) attn v"
    unfolding self_def [symmetric] by (elim exE conjE)
  have sc2: "scale b = 2" using sc by simp
  have u2: "[0..<2] = [0, Suc 0]" by (simp add: upt_rec numeral_eq_Suc)
  have x20: "tensor_at x [2, 0, 0] = 5" "tensor_at x [2, 0, Suc 0] = 6"
    "tensor_at x [3, 0, 0] = 7" "tensor_at x [3, 0, Suc 0] = 8"
    by (simp_all add: x_def tensor_at_def)
  have k2: "tensor_at k [2, 1, 0, 0] = 11"
    using kv_at [rule_format, of 2 1 0 0] by (simp add: u2 x20 unit_weights_def)
  have k3: "tensor_at k [3, 1, 0, 0] = 15"
    using kv_at [rule_format, of 3 1 0 0] by (simp add: u2 x20 unit_weights_def)
  have v3: "tensor_at v [3, 0, 0, 0] = 15"
    using kv_at [rule_format, of 3 0 0 0] by (simp add: u2 x20 unit_weights_def)
  have g3: "tensor_at g [1, 0, 1] = 4" by (simp add: g_def tensor_at_def)
  have r2: "tensor_at rep [2, 0, 1] = 4" using rep_at [rule_format, of 2 0 1] g3 by simp
  have r3: "tensor_at rep [3, 0, 1] = 4" using rep_at [rule_format, of 3 0 1] g3 by simp
  have q3: "tensor_at q [3, 1, 0, 0] = 8" using q_at [rule_format, of 3 1 0 0] g3 sc2 by simp
  have q23: "tensor_at q [2, 1, 0, 0] = tensor_at q [3, 1, 0, 0]"
    using same [rule_format, of 2 3 1 0 0] by simp
  have a2: "tensor_at attn [2, 1, 0, 0] = 88"
    using attn_at [rule_format, of 2 1 0 0] g3 sc2 k2 by simp
  have a3: "tensor_at attn [3, 1, 0, 0] = 120"
    using attn_at [rule_format, of 3 1 0 0] g3 sc2 k3 by simp
  have b': "WindowAttentionGlobal_build self [[4, 1, 2], [2, 1, 2]] = Inr b"
    using b by (simp add: x_def g_def)
  have qk': "qkv b = \<lparr>units = 4, use_bias = True\<rparr>" using qk by simp
  have rp': "tf_repeat g (4 div 2) = Inr rep" using rp by simp
  have q': "WindowAttentionGlobal_query self b 4 1 2 2 g = Inr q" using q by simp
  have sha': "shape attn = [4, 2, 1, 1]" using sha by simp
  have app': "WindowAttentionGlobal_apply self unit_weights inference x g
              = attention_from_logits self b unit_weights inference 4 1 2 attn v"
    using app by simp
  have "\<exists>b rep q k v attn.
      WindowAttentionGlobal_build self [[4, 1, 2], [2, 1, 2]] = Inr b \<and>
      qkv b = \<lparr>units = 4, use_bias = True\<rparr> \<and> scale b = 2 \<and>
      WindowAttentionGlobal_kv self b unit_weights x = Inr [k, v] \<and>
      tensor_at k [2, 1, 0, 0] = 11 \<and> tensor_at k [3, 1, 0, 0] = 15 \<and>
      tensor_at v [3, 0, 0, 0] = 15 \<and>
      tf_repeat g (4 div 2) = Inr rep \<and>
      tensor_at rep [2, 0, 1] = 4 \<and> tensor_at rep [3, 0, 1] = 4 \<and>
      WindowAttentionGlobal_query self b 4 1 2 2 g = Inr q \<and>
      tensor_at q [3, 1, 0, 0] = 8 \<and>
      tensor_at q [2, 1, 0, 0] = tensor_at q [3, 1, 0, 0] \<and>
      attention_logits q k = Inr attn \<and> shape attn = [4, 2, 1, 1] \<and>
      tensor_at attn [2, 1, 0, 0] = 88 \<and> tensor_at attn [3, 1, 0, 0] = 120 \<and>
      WindowAttentionGlobal_apply self unit_weights inference x g
      = attention_from_logits self b unit_weights inference 4 1 2 attn v"
    by (intro exI [of _ b] exI [of _ rep] exI [of _ q] exI [of _ k] exI [of _ v]
          exI [of _ attn] conjI)
       (fact b' qk' sc2 kv k2 k3 v3 rp' r2 r3 q' q3 q23 lg sha' a2 a3 app')+
  then show ?thesis using a c sx sg unfolding self_def x_def g_def by blast
qed
section \<open>The patch embedding\<close>

text \<open>
  Claim C8. For every input image tensor \<open>[B, H, W, C]\<close>, \<^verbatim>\<open>PatchEmbed.call\<close> returns
  what the downsampling block, constructed with \<^verbatim>\<open>keep_dim=True\<close>, returns on the
  output of the 3 by 3, stride 2 convolution to \<open>dim\<close> channels of the input padded with
  one zero pixel on each spatial edge, a tensor of shape
  \<open>[B, (H + 1) div 2, (W + 1) div 2, dim]\<close>.
\<close>

theorem patch_embed_pipeline:
  assumes sh: "shape x = [B, H, W, C]"
  shows "PatchEmbed_call R (PatchEmbed_build (PatchEmbed_init d kw) (shape x)) weights x
         = R \<lparr>keep_dim = True\<rparr> (spec_stem d weights x) \<and>
         shape (spec_stem d weights x) = [B, (H + 1) div 2, (W + 1) div 2, d]"
proof -
  define built where "built = PatchEmbed_build (PatchEmbed_init d kw) (shape x)"
  define padded where "padded = tabulate [B, H + 2, W + 2, C]
      (\<lambda>idx. if 1 \<le> idx ! 1 \<and> idx ! 1 < 1 + H \<and> 1 \<le> idx ! 2 \<and> idx ! 2 < 1 + W
             then tensor_at x [idx ! 0, idx ! 1 - 1, idx ! 2 - 1, idx ! 3] else 0)"
  have p: "keras_zero_padding2d (pad built) x = Inr padded"
    by (simp add: keras_zero_padding2d_def built_def PatchEmbed_build_def sh padded_def
        cong: if_cong)
  have pad_at: "tensor_at padded [b, i, j, c] = spec_padded_pixel x b i j c"
    if "b < B" "i < H + 2" "j < W + 2" "c < C" for b i j c
    using that by (auto simp: padded_def at_tabulate spec_padded_pixel_def sh)
  define Ho where "Ho = (H + 1) div 2"
  define Wo where "Wo = (W + 1) div 2"
  define y where "y = tabulate [B, Ho, Wo, d]
      (\<lambda>idx. sum_list (map (\<lambda>di. sum_list (map (\<lambda>dj. sum_list (map (\<lambda>c.
                 tensor_at padded [idx ! 0, idx ! 1 * 2 + di, idx ! 2 * 2 + dj, c]
                 * proj_filter weights di dj c (idx ! 3))
               [0..<C])) [0..<3])) [0..<3])
             + proj_filter_bias weights (idx ! 3))"
  have c: "keras_conv2d (pe_proj built) (proj_filter weights) (proj_filter_bias weights) padded = Inr y"
    by (simp add: keras_conv2d_def built_def PatchEmbed_build_def PatchEmbed_init_def padded_def
        conv_output_length_def y_def Ho_def Wo_def cong: if_cong)
  have s0: "shape x ! 0 = B" "shape x ! 1 = H" "shape x ! 2 = W" "shape x ! 3 = C"
    by (simp_all add: sh)
  have eq: "y = spec_stem d weights x"
    unfolding y_def spec_stem_def Ho_def Wo_def s0
    apply (rule tabulate_cong)
    subgoal premises v for idx
    proof -
      obtain b i j o' where idx: "idx = [b, i, j, o']" and b: "b < B"
        and i: "i < (H + 1) div 2" and j: "j < (W + 1) div 2"
        using v by (auto simp: valid_index_Cons)
      have inner: "tensor_at padded [b, i * 2 + di, j * 2 + dj, c]
                   = spec_padded_pixel x b (2 * i + di) (2 * j + dj) c"
        if "di < 3" "dj < 3" "c < C" for di dj c
      proof -
        have "i * 2 + di < H + 2" "j * 2 + dj < W + 2" using i j that by linarith+
        then show ?thesis using pad_at [OF b _ _ that(3)] by (simp add: mult.commute)
      qed
      show ?thesis
        unfolding idx
        by (intro arg_cong2 [where f = "(+)"] sum_list_map_cong refl) (simp add: inner)
    qed
    done
  have cd: "conv_down built = \<lparr>keep_dim = True\<rparr>"
    by (simp add: built_def PatchEmbed_build_def)
  have "PatchEmbed_call R built weights x = R \<lparr>keep_dim = True\<rparr> (spec_stem d weights x)"
    unfolding PatchEmbed_call_def by (simp only: p bind_err_Inr c eq cd)
  moreover have "shape (spec_stem d weights x) = [B, (H + 1) div 2, (W + 1) div 2, d]"
    by (simp add: spec_stem_def sh)
  ultimately show ?thesis unfolding built_def by blast
qed

theorem patch_embed_pipeline_witness:
  "shape (Tensor [1, 2, 2, 1] [1, 2, 3, 4 :: real]) = [1, 2, 2, 1] \<and>
   PatchEmbed_call example_reduce (PatchEmbed_build (PatchEmbed_init 1 example_kwargs) [1, 2, 2, 1])
     example_stem_weights (Tensor [1, 2, 2, 1] [1, 2, 3, 4])
   = Inr (Tensor [1, 1, 1, 1] [10])"
proof -
  define x where "x = Tensor [1, 2, 2, 1] [1, 2, 3, 4 :: real]"
  have sh: "shape x = [1, 2, 2, 1]" by (simp add: x_def)
  have "spec_stem 1 example_stem_weights (Tensor [1, 2, 2, 1] [1, 2, 3, 4])
        = Tensor [1, 1, 1, 1] [10]"
    by code_simp
  then have "spec_stem 1 example_stem_weights x = Tensor [1, 1, 1, 1] [10]"
    by (simp add: x_def)
  then have "PatchEmbed_call example_reduce
               (PatchEmbed_build (PatchEmbed_init 1 example_kwargs) (shape x))
               example_stem_weights x = Inr (Tensor [1, 1, 1, 1] [10])"
    using patch_embed_pipeline [OF sh, of example_reduce 1 example_kwargs example_stem_weights]
    by (simp add: example_reduce_def)
  then show ?thesis using sh by (simp add: x_def)
qed

end
